theory Spec2Isabelle
  imports Complex_Main "HOL-Library.List_Lexorder" "HOL-Library.Sublist"
begin

section \<open>Python values\<close>

text \<open>
  A Python \<open>str\<close> is a sequence of Unicode code points; it is modelled as a list of
  natural numbers. \<open>lit\<close> embeds the ASCII literals of the source.
\<close>

type_synonym pystr = "nat list"

definition lit :: "string \<Rightarrow> pystr" where
  "lit s = map of_char s"

text \<open>
  A Python \<open>float\<close> is a finite double (given by its exact rational value), an infinity
  or a NaN; \<open>json.load\<close> produces all of them (\<open>NaN\<close>, \<open>Infinity\<close>, \<open>1e999\<close>).
\<close>

datatype pyfloat = Fin rat | PosInf | NegInf | NaN

datatype pynum = PInt int | PFloat pyfloat

text \<open>What \<open>json.load\<close> returns. A \<open>dict\<close> is an association list read with \<open>map_of\<close>.\<close>

datatype json =
    JNull
  | JBool bool
  | JInt int
  | JFloat pyfloat
  | JStr pystr
  | JList "json list"
  | JObj "(pystr \<times> json) list"

type_synonym pydict = "(pystr \<times> json) list"

datatype py_error = TypeError

text \<open>\<open>obj.get(key)\<close>: the value, or \<open>None\<close> when the key is absent.\<close>

definition py_get :: "pydict \<Rightarrow> pystr \<Rightarrow> json" where
  "py_get obj key = (case map_of obj key of None \<Rightarrow> JNull | Some v \<Rightarrow> v)"

text \<open>\<open>isinstance(v, bool)\<close>, \<open>isinstance(v, dict)\<close>, \<open>isinstance(v, list)\<close>.\<close>

fun is_bool :: "json \<Rightarrow> bool" where
  "is_bool (JBool b) = True"
| "is_bool v = False"

fun is_dict :: "json \<Rightarrow> bool" where
  "is_dict (JObj kvs) = True"
| "is_dict v = False"

text \<open>\<open>isinstance(v, int) and not isinstance(v, bool)\<close>, and \<open>isinstance(v, float)\<close>.\<close>

fun is_proper_int :: "json \<Rightarrow> bool" where
  "is_proper_int (JInt i) = True"
| "is_proper_int v = False"

fun is_float :: "json \<Rightarrow> bool" where
  "is_float (JFloat f) = True"
| "is_float v = False"

text \<open>Truth value of an object, as \<open>if v\<close> and \<open>not v\<close> take it.\<close>

fun truthy :: "json \<Rightarrow> bool" where
  "truthy JNull = False"
| "truthy (JBool b) = b"
| "truthy (JInt i) = (i \<noteq> 0)"
| "truthy (JFloat f) = (f \<noteq> Fin 0)"
| "truthy (JStr s) = (s \<noteq> [])"
| "truthy (JList xs) = (xs \<noteq> [])"
| "truthy (JObj kvs) = (kvs \<noteq> [])"

text \<open>
  Comparison of numbers. Python compares an \<open>int\<close> with a \<open>float\<close> by exact value;
  every comparison with a NaN is false.
\<close>

fun num_value :: "pynum \<Rightarrow> pyfloat" where
  "num_value (PInt i) = Fin (of_int i)"
| "num_value (PFloat f) = f"

fun float_less :: "pyfloat \<Rightarrow> pyfloat \<Rightarrow> bool" where
  "float_less NaN y = False"
| "float_less x NaN = False"
| "float_less (Fin a) (Fin b) = (a < b)"
| "float_less (Fin a) PosInf = True"
| "float_less (Fin a) NegInf = False"
| "float_less NegInf (Fin b) = True"
| "float_less NegInf PosInf = True"
| "float_less NegInf NegInf = False"
| "float_less PosInf y = False"

definition num_less :: "pynum \<Rightarrow> pynum \<Rightarrow> bool" where
  "num_less a b = float_less (num_value a) (num_value b)"

text \<open>The number held by a value that passed one of the two type tests above.\<close>

fun as_num :: "json \<Rightarrow> pynum option" where
  "as_num (JInt i) = Some (PInt i)"
| "as_num (JFloat f) = Some (PFloat f)"
| "as_num v = None"

text \<open>
  The float literals of the source denote doubles: \<open>0.7\<close> is \<open>3152519739159347 / 2^52\<close>
  and \<open>0.1\<close> is \<open>3602879701896397 / 2^55\<close>.
\<close>

definition float_0_7 :: pyfloat where
  "float_0_7 = Fin (3152519739159347 / 4503599627370496)"

definition float_0_1 :: pyfloat where
  "float_0_1 = Fin (3602879701896397 / 36028797018963968)"

subsection \<open>Formatting\<close>

text \<open>\<open>str\<close> of an \<open>int\<close>, in decimal (code point 48 is \<open>0\<close>, 45 is \<open>-\<close>).\<close>

function str_nat :: "nat \<Rightarrow> pystr" where
  "str_nat n = (if n < 10 then [48 + n] else str_nat (n div 10) @ [48 + n mod 10])"
  by pat_completeness auto
termination
  by (relation "measure id") auto

declare str_nat.simps [simp del]

definition str_int :: "int \<Rightarrow> pystr" where
  "str_int i = (if i < 0 then 45 # str_nat (nat (- i)) else str_nat (nat i))"

text \<open>
  \<open>str\<close> of a \<open>float\<close>, given for the two float constants that the program formats
  (\<open>minimum=0.0\<close> and \<open>minimum=0.1\<close>); it is left unspecified elsewhere.
\<close>

definition str_float :: "pyfloat \<Rightarrow> pystr" where
  "str_float f =
     (if f = Fin 0 then lit ''0.0'' else if f = float_0_1 then lit ''0.1'' else undefined)"

fun str_num :: "pynum \<Rightarrow> pystr" where
  "str_num (PInt i) = str_int i"
| "str_num (PFloat f) = str_float f"

text \<open>
  \<open>repr\<close> of a list of strings none of which holds a quote, a backslash or a
  non-printable character, as \<open>f"{sorted(ALLOWED_AUDIENCES)}"\<close> prints it:
  \<open>['both', 'designer', 'developer']\<close>.
\<close>

fun join_comma :: "pystr list \<Rightarrow> pystr" where
  "join_comma [] = []"
| "join_comma [x] = x"
| "join_comma (x # y # ys) = x @ lit '', '' @ join_comma (y # ys)"

definition repr_str :: "pystr \<Rightarrow> pystr" where
  "repr_str s = [39] @ s @ [39]"

definition repr_str_list :: "pystr list \<Rightarrow> pystr" where
  "repr_str_list xs = lit ''['' @ join_comma (map repr_str xs) @ lit '']''"

text \<open>\<open>sorted\<close> on strings: ascending in the lexicographic order of the code points.\<close>

definition py_sorted :: "pystr list \<Rightarrow> pystr list" where
  "py_sorted xs = sort xs"

subsection \<open>String tests\<close>

text \<open>\<open>str.isspace\<close> of one code point, as CPython's Unicode database has it.\<close>

definition is_space :: "nat \<Rightarrow> bool" where
  "is_space c \<longleftrightarrow>
     (9 \<le> c \<and> c \<le> 13) \<or> (28 \<le> c \<and> c \<le> 32) \<or> c = 133 \<or> c = 160 \<or> c = 5760
     \<or> (8192 \<le> c \<and> c \<le> 8202) \<or> c = 8232 \<or> c = 8233 \<or> c = 8239 \<or> c = 8287
     \<or> c = 12288"

text \<open>\<open>s.strip()\<close>: leading and trailing whitespace removed.\<close>

definition strip :: "pystr \<Rightarrow> pystr" where
  "strip s = rev (dropWhile is_space (rev (dropWhile is_space s)))"

text \<open>\<open>s.startswith(p)\<close> is \<open>prefix p s\<close>; \<open>p in s\<close> on strings is \<open>sublist p s\<close>.\<close>

definition is_http_url :: "json \<Rightarrow> bool" where
  "is_http_url v =
     (case v of
        JStr s \<Rightarrow> prefix (lit ''http://'') s \<or> prefix (lit ''https://'') s
      | _ \<Rightarrow> False)"

text \<open>
  \<open>x not in S\<close> for a set \<open>S\<close> of strings: the test hashes \<open>x\<close>, and hashing a
  \<open>list\<close> or a \<open>dict\<close> raises \<open>TypeError: unhashable type\<close>.
\<close>

fun hashable :: "json \<Rightarrow> bool" where
  "hashable (JList xs) = False"
| "hashable (JObj kvs) = False"
| "hashable v = True"

definition not_in_set :: "json \<Rightarrow> pystr set \<Rightarrow> py_error + bool" where
  "not_in_set x S =
     (if \<not> hashable x then Inl TypeError
      else Inr (case x of JStr s \<Rightarrow> s \<notin> S | _ \<Rightarrow> True))"

section \<open>The intake configuration validator\<close>

definition ALLOWED_AUDIENCES :: "pystr set" where
  "ALLOWED_AUDIENCES = {lit ''designer'', lit ''developer'', lit ''both''}"

definition ALLOWED_INTENDED_USE :: "pystr set" where
  "ALLOWED_INTENDED_USE =
     {lit ''internal_exploration'', lit ''client_work'', lit ''rebuild_baseline''}"

definition ALLOWED_CRAWL_MODES :: "pystr set" where
  "ALLOWED_CRAWL_MODES =
     {lit ''representative_sample'', lit ''bounded_full'', lit ''custom_urls'', lit ''sitemap''}"

definition ALLOWED_FALLBACKS :: "pystr set" where
  "ALLOWED_FALLBACKS = {lit ''suggest_candidates'', lit ''mark_unknown'', lit ''infer_ranges''}"

definition DEFAULT_EXCLUDE_HINTS :: "pystr set" where
  "DEFAULT_EXCLUDE_HINTS =
     {lit ''/legal'', lit ''/privacy'', lit ''/terms'', lit ''/careers'', lit ''/login''}"

text \<open>
  Iterating over a set of strings visits its members in an order that depends on the
  hash seed of the interpreter process. The order in which \<open>sorted\<close> receives the
  members of each constant set is therefore an input of a run.
\<close>

record iteration_orders =
  audiences_order :: "pystr list"
  intended_use_order :: "pystr list"
  crawl_modes_order :: "pystr list"
  fallbacks_order :: "pystr list"

definition enumerates :: "pystr list \<Rightarrow> pystr set \<Rightarrow> bool" where
  "enumerates xs S \<longleftrightarrow> distinct xs \<and> set xs = S"

definition valid_orders :: "iteration_orders \<Rightarrow> bool" where
  "valid_orders ord \<longleftrightarrow>
     enumerates (audiences_order ord) ALLOWED_AUDIENCES
     \<and> enumerates (intended_use_order ord) ALLOWED_INTENDED_USE
     \<and> enumerates (crawl_modes_order ord) ALLOWED_CRAWL_MODES
     \<and> enumerates (fallbacks_order ord) ALLOWED_FALLBACKS"

subsection \<open>Primitive checkers\<close>

definition add_error :: "pystr list \<Rightarrow> pystr \<Rightarrow> pystr \<Rightarrow> pystr list" where
  "add_error errors path message = errors @ [path @ lit '': '' @ message]"

definition add_warn :: "pystr list \<Rightarrow> pystr \<Rightarrow> pystr \<Rightarrow> pystr list" where
  "add_warn warnings path message = warnings @ [path @ lit '': '' @ message]"

definition expect_bool :: "pydict \<Rightarrow> pystr \<Rightarrow> pystr \<Rightarrow> pystr list \<Rightarrow> pystr list" where
  "expect_bool obj key path errors =
     (case map_of obj key of
        None \<Rightarrow> add_error errors (path @ lit ''.'' @ key) (lit ''missing required boolean'')
      | Some v \<Rightarrow>
          if \<not> is_bool v then add_error errors (path @ lit ''.'' @ key) (lit ''must be boolean'')
          else errors)"

definition expect_number ::
  "pydict \<Rightarrow> pystr \<Rightarrow> pystr \<Rightarrow> pystr list \<Rightarrow> pynum option \<Rightarrow> bool \<Rightarrow> pystr list" where
  "expect_number obj key path errors minimum integer =
     (case map_of obj key of
        None \<Rightarrow> add_error errors (path @ lit ''.'' @ key) (lit ''missing required number'')
      | Some v \<Rightarrow>
          let ok_type = is_proper_int v;
              ok_type = (if \<not> integer then ok_type \<or> is_float v else ok_type)
          in if \<not> ok_type then
               add_error errors (path @ lit ''.'' @ key) (lit ''must be a number'')
             else
               (case (minimum, as_num v) of
                  (Some m, Some n) \<Rightarrow>
                    if num_less n m then
                      add_error errors (path @ lit ''.'' @ key) (lit ''must be >= '' @ str_num m)
                    else errors
                | _ \<Rightarrow> errors))"

subsection \<open>Section validators\<close>

text \<open>
  The validators append to the two lists of their caller. A validator returns the pair
  of lists as it leaves them, and the exception that left it, if any: the lists are
  shared objects, so what was appended before a \<open>raise\<close> stays appended.
\<close>

type_synonym findings = "pystr list \<times> pystr list"

type_synonym outcome = "findings \<times> py_error option"

definition validate_project :: "iteration_orders \<Rightarrow> pydict \<Rightarrow> findings \<Rightarrow> outcome" where
  "validate_project ord cfg st =
     (case py_get cfg (lit ''project'') of
        JObj project \<Rightarrow>
          let (errors, warnings) = st;
              errors =
                (if (case py_get project (lit ''name'') of JStr s \<Rightarrow> strip s = [] | _ \<Rightarrow> True)
                 then add_error errors (lit ''project.name'') (lit ''must be a non-empty string'')
                 else errors);
              source_url = py_get project (lit ''source_url'');
              (errors, warnings) =
                (if \<not> is_http_url source_url then
                   (add_error errors (lit ''project.source_url'')
                      (lit ''must be a public http(s) URL''), warnings)
                 else if (case source_url of
                            JStr s \<Rightarrow> sublist (lit ''localhost'') s \<or> sublist (lit ''127.0.0.1'') s
                          | _ \<Rightarrow> False)
                 then
                   (errors, add_warn warnings (lit ''project.source_url'')
                      (lit ''looks local/private; this skill is for public websites only''))
                 else (errors, warnings));
              audience = py_get project (lit ''output_audience'')
          in (case not_in_set audience ALLOWED_AUDIENCES of
                Inl exc \<Rightarrow> ((errors, warnings), Some exc)
              | Inr bad_audience \<Rightarrow>
                  let errors =
                        (if bad_audience then
                           add_error errors (lit ''project.output_audience'')
                             (lit ''must be one of ''
                                @ repr_str_list (py_sorted (audiences_order ord)))
                         else errors);
                      intended = py_get project (lit ''intended_use'')
                  in (case not_in_set intended ALLOWED_INTENDED_USE of
                        Inl exc \<Rightarrow> ((errors, warnings), Some exc)
                      | Inr bad_intended \<Rightarrow>
                          ((if bad_intended then
                              add_error errors (lit ''project.intended_use'')
                                (lit ''must be one of ''
                                   @ repr_str_list (py_sorted (intended_use_order ord)))
                            else errors, warnings), None)))
      | _ \<Rightarrow> ((add_error (fst st) (lit ''project'') (lit ''missing required object''), snd st), None))"

text \<open>
  \<open>isinstance(v, list) and all(isinstance(x, str) for x in v)\<close>: the strings of such
  a list.
\<close>

fun str_of :: "json \<Rightarrow> pystr option" where
  "str_of (JStr s) = Some s"
| "str_of v = None"

fun list_of_strings :: "json \<Rightarrow> pystr list option" where
  "list_of_strings (JList xs) =
     (if list_all (\<lambda>x. str_of x \<noteq> None) xs then Some (map (\<lambda>x. the (str_of x)) xs) else None)"
| "list_of_strings v = None"

text \<open>Lines 116 to 123 of \<open>validate_scope\<close>: the rule on \<open>scope.custom_urls\<close>.\<close>

definition scope_custom_urls_rule :: "json \<Rightarrow> pydict \<Rightarrow> findings \<Rightarrow> findings" where
  "scope_custom_urls_rule crawl_mode scope st =
     (let (errors, warnings) = st in
      if crawl_mode = JStr (lit ''custom_urls'') then
        (case py_get scope (lit ''custom_urls'') of
           JList urls \<Rightarrow>
             if urls = [] then
               (add_error errors (lit ''scope.custom_urls'')
                  (lit ''required non-empty list when crawl_mode=custom_urls''), warnings)
             else if \<not> list_all is_http_url urls then
               (add_error errors (lit ''scope.custom_urls'')
                  (lit ''all entries must be http(s) URLs''), warnings)
             else (errors, warnings)
         | _ \<Rightarrow>
             (add_error errors (lit ''scope.custom_urls'')
                (lit ''required non-empty list when crawl_mode=custom_urls''), warnings))
      else if map_of scope (lit ''custom_urls'') \<noteq> None
              \<and> truthy (py_get scope (lit ''custom_urls''))
      then
        (errors, add_warn warnings (lit ''scope.custom_urls'')
           (lit ''ignored unless crawl_mode=custom_urls''))
      else (errors, warnings))"

text \<open>Lines 125 to 130 of \<open>validate_scope\<close>: the rule on \<open>scope.sitemap_url\<close>.\<close>

definition scope_sitemap_rule :: "json \<Rightarrow> pydict \<Rightarrow> findings \<Rightarrow> findings" where
  "scope_sitemap_rule crawl_mode scope st =
     (let (errors, warnings) = st in
      if crawl_mode = JStr (lit ''sitemap'') then
        (if \<not> is_http_url (py_get scope (lit ''sitemap_url'')) then
           (add_error errors (lit ''scope.sitemap_url'')
              (lit ''required http(s) URL when crawl_mode=sitemap''), warnings)
         else (errors, warnings))
      else if map_of scope (lit ''sitemap_url'') \<noteq> None
              \<and> truthy (py_get scope (lit ''sitemap_url''))
      then
        (errors, add_warn warnings (lit ''scope.sitemap_url'')
           (lit ''ignored unless crawl_mode=sitemap''))
      else (errors, warnings))"

definition validate_scope :: "iteration_orders \<Rightarrow> pydict \<Rightarrow> findings \<Rightarrow> outcome" where
  "validate_scope ord cfg st =
     (case py_get cfg (lit ''scope'') of
        JObj scope \<Rightarrow>
          let (errors, warnings) = st;
              crawl_mode = py_get scope (lit ''crawl_mode'')
          in (case not_in_set crawl_mode ALLOWED_CRAWL_MODES of
                Inl exc \<Rightarrow> ((errors, warnings), Some exc)
              | Inr bad_mode \<Rightarrow>
                  let errors =
                        (if bad_mode then
                           add_error errors (lit ''scope.crawl_mode'')
                             (lit ''must be one of ''
                                @ repr_str_list (py_sorted (crawl_modes_order ord)))
                         else errors);
                      errors = expect_number scope (lit ''max_pages'') (lit ''scope'') errors
                                 (Some (PInt 1)) True;
                      errors = expect_number scope (lit ''max_depth'') (lit ''scope'') errors
                                 (Some (PInt 0)) True;
                      errors = expect_bool scope (lit ''include_subdomains'') (lit ''scope'') errors;
                      errors = expect_bool scope (lit ''respect_robots_txt'') (lit ''scope'') errors;
                      errors = expect_number scope (lit ''crawl_delay_ms'') (lit ''scope'') errors
                                 (Some (PInt 0)) True;
                      errors = expect_number scope (lit ''requests_per_second'') (lit ''scope'')
                                 errors (Some (PFloat float_0_1)) False;
                      (errors, warnings) =
                        (case list_of_strings (py_get scope (lit ''exclude_paths'')) of
                           None \<Rightarrow>
                             (add_error errors (lit ''scope.exclude_paths'')
                                (lit ''must be a list of strings''), warnings)
                         | Some exclude_paths \<Rightarrow>
                             if DEFAULT_EXCLUDE_HINTS \<inter> set exclude_paths = {} then
                               (errors, add_warn warnings (lit ''scope.exclude_paths'')
                                  (lit ''does not include common low-value paths (/legal,/privacy,/terms,/careers,/login)''))
                             else (errors, warnings))
                  in (scope_sitemap_rule crawl_mode scope
                        (scope_custom_urls_rule crawl_mode scope (errors, warnings)), None))
      | _ \<Rightarrow> ((add_error (fst st) (lit ''scope'') (lit ''missing required object''), snd st), None))"

definition validate_capture :: "pydict \<Rightarrow> findings \<Rightarrow> findings" where
  "validate_capture cfg st =
     (case py_get cfg (lit ''capture'') of
        JObj capture \<Rightarrow>
          let (errors, warnings) = st;
              (errors, warnings) =
                (case py_get capture (lit ''screenshots'') of
                   JObj screenshots \<Rightarrow>
                     let errors =
                           foldl (\<lambda>errors key.
                                    if (case map_of screenshots key of
                                          Some v \<Rightarrow> \<not> is_bool v | None \<Rightarrow> False)
                                    then add_error errors (lit ''capture.screenshots.'' @ key)
                                           (lit ''must be boolean'')
                                    else errors)
                             errors [lit ''desktop'', lit ''mobile'', lit ''tablet''];
                         errors =
                           (if py_get screenshots (lit ''desktop'') \<noteq> JBool True then
                              add_error errors (lit ''capture.screenshots.desktop'')
                                (lit ''must be true (required)'')
                            else errors);
                         warnings =
                           (if py_get screenshots (lit ''mobile'') \<noteq> JBool True then
                              add_warn warnings (lit ''capture.screenshots.mobile'')
                                (lit ''recommended true for better visual hierarchy coverage'')
                            else warnings)
                     in (errors, warnings)
                 | _ \<Rightarrow>
                     (add_error errors (lit ''capture.screenshots'')
                        (lit ''missing required object''), warnings));
              errors =
                foldl (\<lambda>errors key. expect_bool capture key (lit ''capture'') errors) errors
                  [lit ''html'', lit ''css'', lit ''text'', lit ''asset_metadata'',
                   lit ''component_candidates''];
              errors =
                (if (case map_of capture (lit ''computed_css_samples'') of
                       Some v \<Rightarrow> \<not> is_bool v | None \<Rightarrow> False)
                 then add_error errors (lit ''capture.computed_css_samples'')
                        (lit ''must be boolean if provided'')
                 else errors);
              warnings =
                (if py_get capture (lit ''css'') = JBool False then
                   add_warn warnings (lit ''capture.css'')
                     (lit ''disabling CSS reduces token extraction quality'')
                 else warnings);
              warnings =
                (if py_get capture (lit ''text'') = JBool False then
                   add_warn warnings (lit ''capture.text'')
                     (lit ''disabling text reduces voice DNA extraction quality'')
                 else warnings)
          in (errors, warnings)
      | _ \<Rightarrow> (add_error (fst st) (lit ''capture'') (lit ''missing required object''), snd st))"

definition validate_quality :: "iteration_orders \<Rightarrow> pydict \<Rightarrow> findings \<Rightarrow> outcome" where
  "validate_quality ord cfg st =
     (case py_get cfg (lit ''quality'') of
        JObj quality \<Rightarrow>
          let (errors, warnings) = st;
              errors = expect_number quality (lit ''canonical_token_confidence_threshold'')
                         (lit ''quality'') errors (Some (PFloat (Fin 0))) False;
              threshold = py_get quality (lit ''canonical_token_confidence_threshold'');
              (errors, warnings) =
                (case as_num threshold of
                   Some t \<Rightarrow>
                     if num_less (PInt 1) t then
                       (add_error errors (lit ''quality.canonical_token_confidence_threshold'')
                          (lit ''must be <= 1''), warnings)
                     else if num_less t (PFloat float_0_7) then
                       (errors, add_warn warnings
                          (lit ''quality.canonical_token_confidence_threshold'')
                          (lit ''below recommended default 0.70''))
                     else (errors, warnings)
                 | None \<Rightarrow> (errors, warnings));
              fallback = py_get quality (lit ''low_confidence_fallback'')
          in (case not_in_set fallback ALLOWED_FALLBACKS of
                Inl exc \<Rightarrow> ((errors, warnings), Some exc)
              | Inr bad_fallback \<Rightarrow>
                  let errors =
                        (if bad_fallback then
                           add_error errors (lit ''quality.low_confidence_fallback'')
                             (lit ''must be one of ''
                                @ repr_str_list (py_sorted (fallbacks_order ord)))
                         else errors);
                      errors =
                        foldl (\<lambda>errors key. expect_bool quality key (lit ''quality'') errors) errors
                          [lit ''require_contrast_checks'', lit ''require_anti_pattern_report'',
                           lit ''require_pnie_matrix'']
                  in ((errors, warnings), None))
      | _ \<Rightarrow> ((add_error (fst st) (lit ''quality'') (lit ''missing required object''), snd st), None))"

definition validate_guardrails :: "pydict \<Rightarrow> pystr list \<Rightarrow> pystr list" where
  "validate_guardrails cfg errors =
     (let mode = py_get cfg (lit ''mode'');
          errors =
            (if mode \<noteq> JStr (lit ''brand_faithful_modernization'') then
               add_error errors (lit ''mode'')
                 (lit ''must equal '' @ repr_str (lit ''brand_faithful_modernization''))
             else errors)
      in case py_get cfg (lit ''guardrails'') of
           JNull \<Rightarrow> errors
         | JObj guardrails \<Rightarrow>
             foldl (\<lambda>errors key.
                      if (case map_of guardrails key of Some v \<Rightarrow> \<not> is_bool v | None \<Rightarrow> False)
                      then add_error errors (lit ''guardrails.'' @ key) (lit ''must be boolean'')
                      else errors)
               errors
               [lit ''public_access_confirmed'', lit ''non_clone_intent_confirmed'',
                lit ''asset_rights_warning_confirmed'']
         | _ \<Rightarrow> add_error errors (lit ''guardrails'') (lit ''must be an object if provided''))"

definition validate_output :: "pydict \<Rightarrow> pystr list \<Rightarrow> pystr list" where
  "validate_output cfg warnings =
     (case py_get cfg (lit ''output'') of
        JNull \<Rightarrow> warnings
      | JObj output \<Rightarrow>
          (case py_get output (lit ''formats'') of
             JObj formats \<Rightarrow>
               if py_get formats (lit ''markdown'') = JBool False
                  \<or> py_get formats (lit ''json'') = JBool False
               then add_warn warnings (lit ''output.formats'')
                      (lit ''markdown and json are required by this skill'')
               else warnings
           | _ \<Rightarrow> warnings)
      | _ \<Rightarrow> add_warn warnings (lit ''output'') (lit ''should be an object if provided''))"

subsection \<open>The orchestrator\<close>

text \<open>Statements in sequence: the next one runs unless an exception is on its way out.\<close>

definition then_run :: "outcome \<Rightarrow> (findings \<Rightarrow> outcome) \<Rightarrow> outcome" where
  "then_run r f = (case r of (st, None) \<Rightarrow> f st | (st, Some exc) \<Rightarrow> (st, Some exc))"

text \<open>Lines 241 to 248 of \<open>main\<close>: the six section validators on two fresh lists.\<close>

definition run_section_validators :: "iteration_orders \<Rightarrow> pydict \<Rightarrow> outcome" where
  "run_section_validators ord cfg =
     (let errors = []; warnings = [];
          errors = validate_guardrails cfg errors
      in then_run (validate_project ord cfg (errors, warnings)) (\<lambda>st.
         then_run (validate_scope ord cfg st) (\<lambda>st.
         then_run (validate_quality ord cfg (validate_capture cfg st)) (\<lambda>(errors, warnings).
         ((errors, validate_output cfg warnings), None)))))"

text \<open>Lines 250 to 257 of \<open>main\<close>: the pass made under \<open>--strict-guardrails\<close>.\<close>

definition strict_guardrails_pass :: "pydict \<Rightarrow> pystr list \<Rightarrow> pystr list" where
  "strict_guardrails_pass cfg errors =
     (case py_get cfg (lit ''guardrails'') of
        JObj guardrails \<Rightarrow>
          foldl (\<lambda>errors key.
                   if py_get guardrails key \<noteq> JBool True then
                     add_error errors (lit ''guardrails.'' @ key)
                       (lit ''must be true before crawling'')
                   else errors)
            errors
            [lit ''public_access_confirmed'', lit ''non_clone_intent_confirmed'',
             lit ''asset_rights_warning_confirmed'']
      | _ \<Rightarrow> add_error errors (lit ''guardrails'')
               (lit ''required when --strict-guardrails is set''))"

text \<open>The two lists as \<open>main\<close> holds them on line 259, or the exception that left it.\<close>

definition collect_findings :: "iteration_orders \<Rightarrow> bool \<Rightarrow> pydict \<Rightarrow> outcome" where
  "collect_findings ord strict_guardrails cfg =
     then_run (run_section_validators ord cfg) (\<lambda>(errors, warnings).
       ((if strict_guardrails then strict_guardrails_pass cfg errors else errors, warnings),
        None))"

text \<open>Lines 259 to 269 of \<open>main\<close>: the printed lines and the value returned.\<close>

definition report :: "findings \<Rightarrow> int \<times> pystr list" where
  "report st =
     (let (errors, warnings) = st;
          printed = map (\<lambda>warning. lit ''WARN: '' @ warning) warnings
                    @ map (\<lambda>error. lit ''ERROR: '' @ error) errors
      in if errors \<noteq> [] then
           (1, printed @ [lit ''Config validation failed ('' @ str_int (int (length errors))
                          @ lit '' error(s), '' @ str_int (int (length warnings))
                          @ lit '' warning(s))''])
         else
           (0, printed @ [lit ''Config validation passed ('' @ str_int (int (length warnings))
                          @ lit '' warning(s))'']))"

text \<open>
  \<open>main\<close>, given what \<open>load_json\<close> did (the text of the exception it raised, or the
  value it returned): the value returned with the printed lines, or the exception that
  leaves \<open>main\<close>.
\<close>

definition main :: "iteration_orders \<Rightarrow> bool \<Rightarrow> pystr + json \<Rightarrow> py_error + int \<times> pystr list" where
  "main ord strict_guardrails loaded =
     (case loaded of
        Inl exc \<Rightarrow> Inr (1, [lit ''ERROR: failed to read JSON: '' @ exc])
      | Inr (JObj cfg) \<Rightarrow>
          (case collect_findings ord strict_guardrails cfg of
             (st, Some exc) \<Rightarrow> Inl exc
           | (st, None) \<Rightarrow> Inr (report st))
      | Inr _ \<Rightarrow> Inr (1, [lit ''ERROR: config must be a top-level JSON object'']))"

text \<open>
  Lines 272 and 273, \<open>raise SystemExit(main())\<close>: the status with which the process
  ends. It is the value that \<open>main\<close> returns; when an exception leaves \<open>main\<close>, the
  interpreter prints the traceback and the process ends with status 1.
\<close>

definition process_exit_status :: "py_error + int \<times> pystr list \<Rightarrow> int" where
  "process_exit_status r = (case r of Inl exc \<Rightarrow> 1 | Inr (code, printed) \<Rightarrow> code)"

section \<open>The output package checker\<close>

definition REQUIRED_PATHS :: "pystr list" where
  "REQUIRED_PATHS =
     [lit ''reports/executive-summary.md'',
      lit ''reports/source-audit.md'',
      lit ''reports/brand-dna.md'',
      lit ''reports/accessibility-audit.md'',
      lit ''reports/preserve-normalize-improve-exclude.md'',
      lit ''tokens/tokens.json'',
      lit ''tokens/tokens.css'',
      lit ''tokens/tailwind.theme.js'',
      lit ''components/component-library-spec.md'',
      lit ''components/component-contracts.json'',
      lit ''patterns/page-template-patterns.md'',
      lit ''evidence/crawl-manifest.json'',
      lit ''evidence/page-weights.json'',
      lit ''evidence/extraction-confidence.json'']"

text \<open>
  What the checker reads from outside, for a relative path \<open>rel\<close> under the root:
  \<open>str(root / rel)\<close>, \<open>(root / rel).exists()\<close> and
  \<open>(root / rel).read_text(encoding="utf-8")\<close>, which returns the text or raises
  (the file has gone, is a directory, or is not UTF-8); then \<open>json.loads\<close>, which
  returns a value or raises, and \<open>str.lower\<close>. An exception is given by its \<open>str\<close>.
\<close>

record package_env =
  path_text :: "pystr \<Rightarrow> pystr"
  path_exists :: "pystr \<Rightarrow> bool"
  read_text :: "pystr \<Rightarrow> pystr + pystr"
  json_loads :: "pystr \<Rightarrow> pystr + json"
  lower :: "pystr \<Rightarrow> pystr"

text \<open>\<open>parse_json\<close> returns the value and \<open>None\<close>, or \<open>None\<close> and the exception's text.\<close>

definition parse_json :: "package_env \<Rightarrow> pystr \<Rightarrow> json \<times> pystr option" where
  "parse_json env rel =
     (case read_text env rel of
        Inl exc \<Rightarrow> (JNull, Some exc)
      | Inr text \<Rightarrow>
          (case json_loads env text of
             Inl exc \<Rightarrow> (JNull, Some exc)
           | Inr v \<Rightarrow> (v, None)))"

definition require_keys :: "pydict \<Rightarrow> pystr list \<Rightarrow> pystr \<Rightarrow> pystr list \<Rightarrow> pystr list" where
  "require_keys obj keys path errors =
     (let missing = filter (\<lambda>k. map_of obj k = None) keys
      in if missing \<noteq> [] then errors @ [path @ lit '': missing keys '' @ repr_str_list missing]
         else errors)"

text \<open>
  The check that \<open>main\<close> writes out three times, for the crawl manifest, the page
  weights and the extraction confidence (lines 81 to 106).
\<close>

definition check_keys_of_file ::
  "package_env \<Rightarrow> pystr \<Rightarrow> pystr list \<Rightarrow> pystr list \<Rightarrow> pystr list" where
  "check_keys_of_file env rel keys errors =
     (case parse_json env rel of
        (data, err) \<Rightarrow>
          if (case err of Some e \<Rightarrow> e \<noteq> [] | None \<Rightarrow> False) then
            errors @ [path_text env rel @ lit '': invalid JSON ('' @ the err @ lit '')'']
          else
            (case data of
               JObj obj \<Rightarrow> require_keys obj keys (path_text env rel) errors
             | _ \<Rightarrow> errors @ [path_text env rel @ lit '': expected top-level object'']))"

text \<open>Lines 69 to 79: the check of \<open>tokens/tokens.json\<close>.\<close>

definition check_tokens_file :: "package_env \<Rightarrow> findings \<Rightarrow> findings" where
  "check_tokens_file env st =
     (let (errors, warnings) = st; rel = lit ''tokens/tokens.json'' in
      case parse_json env rel of
        (data, err) \<Rightarrow>
          if (case err of Some e \<Rightarrow> e \<noteq> [] | None \<Rightarrow> False) then
            (errors @ [path_text env rel @ lit '': invalid JSON ('' @ the err @ lit '')''],
             warnings)
          else
            (case data of
               JObj obj \<Rightarrow>
                 let expected_top =
                       [lit ''color'', lit ''typography'', lit ''spacing'', lit ''radius'',
                        lit ''shadow'', lit ''border'', lit ''motion'', lit ''layout''];
                     missing = filter (\<lambda>k. map_of obj k = None) expected_top
                 in if missing \<noteq> [] then
                      (errors,
                       warnings @ [path_text env rel @ lit '': missing recommended token groups ''
                                   @ repr_str_list missing])
                    else (errors, warnings)
             | _ \<Rightarrow> (errors @ [path_text env rel @ lit '': expected top-level object''], warnings)))"

text \<open>Lines 57 to 60: the required files that do not exist.\<close>

definition missing_required_files :: "package_env \<Rightarrow> pystr list" where
  "missing_required_files env =
     foldl (\<lambda>errors rel.
              if \<not> path_exists env rel then
                errors @ [lit ''Missing required file: '' @ path_text env rel]
              else errors)
       [] REQUIRED_PATHS"

text \<open>Lines 68 to 106: the four JSON files.\<close>

definition json_shape_checks :: "package_env \<Rightarrow> findings" where
  "json_shape_checks env =
     (let (errors, warnings) = check_tokens_file env ([], []);
          errors = check_keys_of_file env (lit ''evidence/crawl-manifest.json'')
                     [lit ''source_url'', lit ''crawl_mode'', lit ''pages''] errors;
          errors = check_keys_of_file env (lit ''evidence/page-weights.json'')
                     [lit ''clusters'', lit ''pages''] errors;
          errors = check_keys_of_file env (lit ''evidence/extraction-confidence.json'')
                     [lit ''threshold''] errors
      in (errors, warnings))"

text \<open>
  \<open>main\<close> of the output package checker: the value returned with the printed lines,
  or the text of the exception that leaves it.
\<close>

definition output_package_main :: "package_env \<Rightarrow> pystr + int \<times> pystr list" where
  "output_package_main env =
     (let errors = missing_required_files env in
      if errors \<noteq> [] then
        Inr (1, map (\<lambda>msg. lit ''ERROR: '' @ msg) errors
                @ [lit ''Validation failed ('' @ str_int (int (length errors))
                   @ lit '' missing required files)''])
      else
        let (errors, warnings) = json_shape_checks env in
        case read_text env (lit ''reports/preserve-normalize-improve-exclude.md'') of
          Inl exc \<Rightarrow> Inl exc
        | Inr pnie \<Rightarrow>
            let warnings =
                  foldl (\<lambda>warnings term.
                           if \<not> sublist term pnie then
                             warnings @ [lit ''PNIE report does not mention '' @ repr_str term]
                           else warnings)
                    warnings
                    [lit ''Preserve'', lit ''Normalize'', lit ''Improve'', lit ''Exclude'']
            in (case read_text env (lit ''reports/executive-summary.md'') of
                 Inl exc \<Rightarrow> Inl exc
               | Inr summary \<Rightarrow>
                   let non_derivative_markers =
                         [lit ''not a clone'', lit ''brand-faithful'', lit ''normalize'',
                          lit ''must not be copied''];
                       warnings =
                         (if \<not> list_ex (\<lambda>marker. sublist marker (lower env summary))
                                 (map (lower env) non_derivative_markers)
                          then warnings @ [lit ''Executive summary may be missing explicit non-derivative guardrail language'']
                          else warnings);
                       printed = map (\<lambda>msg. lit ''ERROR: '' @ msg) errors
                                 @ map (\<lambda>msg. lit ''WARN: '' @ msg) warnings
                   in if errors \<noteq> [] then
                        Inr (1, printed @ [lit ''Validation failed (''
                                           @ str_int (int (length errors)) @ lit '' error(s), ''
                                           @ str_int (int (length warnings))
                                           @ lit '' warning(s))''])
                      else
                        Inr (0, printed @ [lit ''Validation passed with ''
                                           @ str_int (int (length warnings))
                                           @ lit '' warning(s)''])))"

section \<open>What a call appended\<close>

text \<open>The findings that a checker appends to an empty list.\<close>

definition bool_findings :: "pydict \<Rightarrow> pystr \<Rightarrow> pystr \<Rightarrow> pystr list" where
  "bool_findings obj key path = expect_bool obj key path []"

definition number_findings ::
  "pydict \<Rightarrow> pystr \<Rightarrow> pystr \<Rightarrow> pynum option \<Rightarrow> bool \<Rightarrow> pystr list" where
  "number_findings obj key path minimum integer = expect_number obj key path [] minimum integer"

text \<open>
  The errors and the warnings that a validator appended, given the lists it was called
  with and what it left.
\<close>

definition new_errors :: "findings \<Rightarrow> outcome \<Rightarrow> pystr list" where
  "new_errors st r = drop (length (fst st)) (fst (fst r))"

definition new_warnings :: "findings \<Rightarrow> outcome \<Rightarrow> pystr list" where
  "new_warnings st r = drop (length (snd st)) (snd (fst r))"

section \<open>Example inputs\<close>

text \<open>\<open>{"capture": {"screenshots": {"desktop": "yes"}}}\<close>\<close>

definition desktop_string_cfg :: pydict where
  "desktop_string_cfg =
     [(lit ''capture'',
       JObj [(lit ''screenshots'', JObj [(lit ''desktop'', JStr (lit ''yes''))])])]"

text \<open>\<open>{"quality": {"canonical_token_confidence_threshold": threshold}}\<close>\<close>

definition quality_cfg :: "json \<Rightarrow> pydict" where
  "quality_cfg threshold =
     [(lit ''quality'', JObj [(lit ''canonical_token_confidence_threshold'', threshold)])]"

text \<open>
  A configuration with every required section present and well-typed; \<open>mobile\<close> is the
  value of \<open>capture.screenshots.mobile\<close>.
\<close>

definition valid_cfg :: "bool \<Rightarrow> pydict" where
  "valid_cfg mobile =
     [(lit ''mode'', JStr (lit ''brand_faithful_modernization'')),
      (lit ''project'',
       JObj [(lit ''name'', JStr (lit ''Acme'')),
             (lit ''source_url'', JStr (lit ''https://example.com'')),
             (lit ''output_audience'', JStr (lit ''both'')),
             (lit ''intended_use'', JStr (lit ''client_work''))]),
      (lit ''scope'',
       JObj [(lit ''crawl_mode'', JStr (lit ''representative_sample'')),
             (lit ''max_pages'', JInt 10),
             (lit ''max_depth'', JInt 2),
             (lit ''include_subdomains'', JBool False),
             (lit ''respect_robots_txt'', JBool True),
             (lit ''crawl_delay_ms'', JInt 500),
             (lit ''requests_per_second'', JInt 1),
             (lit ''exclude_paths'', JList [JStr (lit ''/legal'')])]),
      (lit ''capture'',
       JObj [(lit ''screenshots'',
              JObj [(lit ''desktop'', JBool True), (lit ''mobile'', JBool mobile)]),
             (lit ''html'', JBool True),
             (lit ''css'', JBool True),
             (lit ''text'', JBool True),
             (lit ''asset_metadata'', JBool True),
             (lit ''component_candidates'', JBool True)]),
      (lit ''quality'',
       JObj [(lit ''canonical_token_confidence_threshold'',
              JFloat (Fin (3602879701896397 / 4503599627370496))),
             (lit ''low_confidence_fallback'', JStr (lit ''mark_unknown'')),
             (lit ''require_contrast_checks'', JBool True),
             (lit ''require_anti_pattern_report'', JBool True),
             (lit ''require_pnie_matrix'', JBool True)])]"

text \<open>
  Two orders in which the constant sets may be iterated: the order of the source text
  and its reverse.
\<close>

definition source_orders :: iteration_orders where
  "source_orders =
     \<lparr>audiences_order = [lit ''designer'', lit ''developer'', lit ''both''],
      intended_use_order =
        [lit ''internal_exploration'', lit ''client_work'', lit ''rebuild_baseline''],
      crawl_modes_order =
        [lit ''representative_sample'', lit ''bounded_full'', lit ''custom_urls'', lit ''sitemap''],
      fallbacks_order = [lit ''suggest_candidates'', lit ''mark_unknown'', lit ''infer_ranges'']\<rparr>"

definition reversed_orders :: iteration_orders where
  "reversed_orders =
     \<lparr>audiences_order = [lit ''both'', lit ''developer'', lit ''designer''],
      intended_use_order =
        [lit ''rebuild_baseline'', lit ''client_work'', lit ''internal_exploration''],
      crawl_modes_order =
        [lit ''sitemap'', lit ''custom_urls'', lit ''bounded_full'', lit ''representative_sample''],
      fallbacks_order = [lit ''infer_ranges'', lit ''mark_unknown'', lit ''suggest_candidates'']\<rparr>"

text \<open>\<open>{"project": {}, "scope": {}, "quality": {}}\<close>\<close>

definition empty_sections_cfg :: pydict where
  "empty_sections_cfg =
     [(lit ''project'', JObj []), (lit ''scope'', JObj []), (lit ''quality'', JObj [])]"

text \<open>
  The supported mode, with a \<open>guardrails\<close> object that confirms two of the three keys
  and denies the third.
\<close>

definition guardrails_cfg :: pydict where
  "guardrails_cfg =
     [(lit ''mode'', JStr (lit ''brand_faithful_modernization'')),
      (lit ''guardrails'',
       JObj [(lit ''public_access_confirmed'', JBool True),
             (lit ''non_clone_intent_confirmed'', JBool True),
             (lit ''asset_rights_warning_confirmed'', JBool False)])]"

text \<open>
  The supported mode and a complete \<open>project\<close> whose \<open>output_audience\<close> is the
  list \<open>["designer"]\<close>.
\<close>

definition list_audience_cfg :: pydict where
  "list_audience_cfg =
     [(lit ''mode'', JStr (lit ''brand_faithful_modernization'')),
      (lit ''project'',
       JObj [(lit ''name'', JStr (lit ''Acme'')),
             (lit ''source_url'', JStr (lit ''https://example.com'')),
             (lit ''output_audience'', JList [JStr (lit ''designer'')]),
             (lit ''intended_use'', JStr (lit ''client_work''))])]"

text \<open>
  \<open>{"scope": {"crawl_mode": ["sitemap"], "custom_urls": ["http://a"]}}\<close>, and the
  same with \<open>"crawl_mode": "representative_sample"\<close>.
\<close>

definition list_crawl_mode_cfg :: pydict where
  "list_crawl_mode_cfg =
     [(lit ''scope'',
       JObj [(lit ''crawl_mode'', JList [JStr (lit ''sitemap'')]),
             (lit ''custom_urls'', JList [JStr (lit ''http://a'')])])]"

definition sample_crawl_mode_cfg :: pydict where
  "sample_crawl_mode_cfg =
     [(lit ''scope'',
       JObj [(lit ''crawl_mode'', JStr (lit ''representative_sample'')),
             (lit ''custom_urls'', JList [JStr (lit ''http://a'')])])]"

text \<open>
  An output package in which every required file exists and the JSON files parse to an
  object holding every key asked of them; \<open>pnie\<close> is what reading
  \<open>reports/preserve-normalize-improve-exclude.md\<close> does. The texts involved are in
  lower case already.
\<close>

definition complete_package_env :: "pystr + pystr \<Rightarrow> package_env" where
  "complete_package_env pnie =
     \<lparr>path_text = (\<lambda>rel. lit ''design-system-output/'' @ rel),
      path_exists = (\<lambda>rel. True),
      read_text =
        (\<lambda>rel. if rel = lit ''reports/preserve-normalize-improve-exclude.md'' then pnie
               else if rel = lit ''reports/executive-summary.md''
               then Inr (lit ''a brand-faithful system, not a clone'')
               else Inr (lit ''{...}'')),
      json_loads =
        (\<lambda>text. Inr (JObj [(lit ''color'', JObj []), (lit ''typography'', JObj []),
                            (lit ''spacing'', JObj []), (lit ''radius'', JObj []),
                            (lit ''shadow'', JObj []), (lit ''border'', JObj []),
                            (lit ''motion'', JObj []), (lit ''layout'', JObj []),
                            (lit ''source_url'', JStr (lit ''https://example.com'')),
                            (lit ''crawl_mode'', JStr (lit ''sitemap'')),
                            (lit ''pages'', JList []), (lit ''clusters'', JList []),
                            (lit ''threshold'', JFloat (Fin (1 / 2)))])),
      lower = (\<lambda>s. s)\<rparr>"

section \<open>Properties\<close>

subsection \<open>Literals\<close>

lemma lit_eq_iff [simp]: "lit a = lit b \<longleftrightarrow> a = b"
  unfolding lit_def by (simp add: inj_on_def)

lemma lit_Nil [simp]: "lit [] = []"
  by (simp add: lit_def)

lemma lit_eq_Nil [simp]: "lit a = [] \<longleftrightarrow> a = []"
  by (simp add: lit_def)

lemma lit_append_lit [simp]: "lit a @ lit b = lit (a @ b)"
  by (simp add: lit_def)

lemma lit_append_lit2 [simp]: "lit a @ lit b @ c = lit (a @ b) @ c"
  by (simp add: lit_def)

lemma prefix_lit [simp]: "prefix (lit a) (lit b) \<longleftrightarrow> prefix a b"
proof (induction a arbitrary: b)
  case Nil
  then show ?case by simp
next
  case (Cons x xs)
  then show ?case by (cases b) (auto simp: lit_def)
qed

lemma sublist_lit [simp]: "sublist (lit a) (lit b) \<longleftrightarrow> sublist a b"
proof (induction b)
  case Nil
  then show ?case by (cases a) (simp_all add: lit_def)
next
  case (Cons y ys)
  have "sublist (lit a) (lit (y # ys))
          \<longleftrightarrow> prefix (lit a) (lit (y # ys)) \<or> sublist (lit a) (lit ys)"
    by (simp add: lit_def sublist_Cons_right)
  with Cons show ?case by (simp add: sublist_Cons_right)
qed

lemma lit_append_neq_lit [simp]: "\<not> prefix a b \<Longrightarrow> lit a @ x \<noteq> lit b"
proof
  assume np: "\<not> prefix a b" and eq: "lit a @ x = lit b"
  have "prefix (lit a) (lit a @ x)" by simp
  with eq have "prefix (lit a) (lit b)" by simp
  with np show False by simp
qed

lemma lit_neq_lit_append [simp]: "\<not> prefix a b \<Longrightarrow> lit b \<noteq> lit a @ x"
  using lit_append_neq_lit [of a b x] by metis

lemma str_int_0 [simp]: "str_int 0 = lit ''0''"
  by (simp add: str_int_def str_nat.simps lit_def)

lemma str_int_1 [simp]: "str_int 1 = lit ''1''"
  by (simp add: str_int_def str_nat.simps lit_def)

lemma str_float_zero [simp]: "str_float (Fin 0) = lit ''0.0''"
  by (simp add: str_float_def)

subsection \<open>Checkers only append\<close>

lemma expect_bool_append: "expect_bool obj key path errors = errors @ bool_findings obj key path"
  by (simp add: expect_bool_def bool_findings_def add_error_def split: option.splits)

lemma expect_number_append:
  "expect_number obj key path errors minimum integer
     = errors @ number_findings obj key path minimum integer"
  by (simp add: expect_number_def number_findings_def add_error_def Let_def
        split: option.splits)

lemma bool_findings_filter:
  "\<not> P (path @ lit ''.'' @ key @ lit '': missing required boolean'') \<Longrightarrow>
   \<not> P (path @ lit ''.'' @ key @ lit '': must be boolean'') \<Longrightarrow>
   filter P (bool_findings obj key path) = []"
  by (simp add: expect_bool_def bool_findings_def add_error_def split: option.splits)

lemma bool_findings_count:
  "x \<noteq> path @ lit ''.'' @ key @ lit '': missing required boolean'' \<Longrightarrow>
   x \<noteq> path @ lit ''.'' @ key @ lit '': must be boolean'' \<Longrightarrow>
   count_list (bool_findings obj key path) x = 0"
  by (simp add: expect_bool_def bool_findings_def add_error_def split: option.splits)

lemma number_findings_numeric:
  "map_of obj key = Some v \<Longrightarrow> as_num v = Some t \<Longrightarrow>
   number_findings obj key path (Some m) False
     = (if num_less t m then [path @ lit ''.'' @ key @ lit '': must be >= '' @ str_num m] else [])"
  by (cases v) (simp_all add: number_findings_def expect_number_def add_error_def)

lemma filter_if: "filter P (if c then xs else ys) = (if c then filter P xs else filter P ys)"
  by simp

lemma count_list_if:
  "count_list (if c then xs else ys) x = (if c then count_list xs x else count_list ys x)"
  by simp

lemma not_prefix_lit_append [simp]:
  "\<not> prefix a b \<Longrightarrow> \<not> prefix b a \<Longrightarrow> \<not> prefix (lit a) (lit b @ x)"
proof
  assume ab: "\<not> prefix a b" and ba: "\<not> prefix b a"
    and p: "prefix (lit a) (lit b @ x)"
  from p have "prefix (lit a) (lit b) \<or> (\<exists>us. lit a = lit b @ us \<and> prefix us x)"
    by (simp add: prefix_append)
  then show False
  proof
    assume "prefix (lit a) (lit b)"
    with ab show False by simp
  next
    assume "\<exists>us. lit a = lit b @ us \<and> prefix us x"
    then obtain us where "lit a = lit b @ us" by blast
    then have "prefix (lit b) (lit a)" by (rule prefixI)
    with ba show False by simp
  qed
qed

subsection \<open>Primitive checkers\<close>

text \<open>
  Claim C5. A boolean at a field given to the numeric checker produces the error
  \<open>must be a number\<close>, whatever the minimum and the integer flag; a number (so also
  0 and 1, integer or floating) at a field given to the boolean checker produces the
  error \<open>must be boolean\<close>; a floating value at a field checked with \<open>integer=True\<close>
  produces the error \<open>must be a number\<close>; and an integer passes the type test of
  every numeric check, so that only the minimum decides.
\<close>

theorem C5_strict_type_tests:
  "(map_of obj key = Some (JBool b) \<longrightarrow>
      expect_number obj key path errors minimum integer
        = add_error errors (path @ lit ''.'' @ key) (lit ''must be a number''))
   \<and> (map_of obj key = Some v \<and> as_num v \<noteq> None \<longrightarrow>
      expect_bool obj key path errors
        = add_error errors (path @ lit ''.'' @ key) (lit ''must be boolean''))
   \<and> (map_of obj key = Some (JFloat f) \<longrightarrow>
      expect_number obj key path errors minimum True
        = add_error errors (path @ lit ''.'' @ key) (lit ''must be a number''))
   \<and> (map_of obj key = Some (JInt i) \<longrightarrow>
      expect_number obj key path errors minimum integer
        = (case minimum of
             None \<Rightarrow> errors
           | Some m \<Rightarrow>
               if num_less (PInt i) m then
                 add_error errors (path @ lit ''.'' @ key) (lit ''must be >= '' @ str_num m)
               else errors))"
proof (intro conjI impI)
  assume "map_of obj key = Some (JBool b)"
  then show "expect_number obj key path errors minimum integer
        = add_error errors (path @ lit ''.'' @ key) (lit ''must be a number'')"
    by (simp add: expect_number_def)
next
  assume "map_of obj key = Some v \<and> as_num v \<noteq> None"
  then show "expect_bool obj key path errors
        = add_error errors (path @ lit ''.'' @ key) (lit ''must be boolean'')"
    by (cases v) (simp_all add: expect_bool_def)
next
  assume "map_of obj key = Some (JFloat f)"
  then show "expect_number obj key path errors minimum True
        = add_error errors (path @ lit ''.'' @ key) (lit ''must be a number'')"
    by (simp add: expect_number_def)
next
  assume "map_of obj key = Some (JInt i)"
  then show "expect_number obj key path errors minimum integer
        = (case minimum of
             None \<Rightarrow> errors
           | Some m \<Rightarrow>
               if num_less (PInt i) m then
                 add_error errors (path @ lit ''.'' @ key) (lit ''must be >= '' @ str_num m)
               else errors)"
    by (simp add: expect_number_def split: option.splits)
qed

theorem C5_strict_type_tests_witness:
  "expect_number [(lit ''max_pages'', JBool True)] (lit ''max_pages'') (lit ''scope'') []
      (Some (PInt 1)) True = [lit ''scope.max_pages: must be a number'']
   \<and> expect_number [(lit ''requests_per_second'', JBool False)] (lit ''requests_per_second'')
      (lit ''scope'') [] (Some (PFloat float_0_1)) False
      = [lit ''scope.requests_per_second: must be a number'']
   \<and> expect_bool [(lit ''respect_robots_txt'', JInt 1)] (lit ''respect_robots_txt'')
      (lit ''scope'') [] = [lit ''scope.respect_robots_txt: must be boolean'']
   \<and> expect_bool [(lit ''respect_robots_txt'', JInt 0)] (lit ''respect_robots_txt'')
      (lit ''scope'') [] = [lit ''scope.respect_robots_txt: must be boolean'']
   \<and> expect_bool [(lit ''respect_robots_txt'', JFloat (Fin 1))] (lit ''respect_robots_txt'')
      (lit ''scope'') [] = [lit ''scope.respect_robots_txt: must be boolean'']
   \<and> expect_number [(lit ''max_pages'', JFloat (Fin (5 / 2)))] (lit ''max_pages'') (lit ''scope'')
      [] (Some (PInt 1)) True = [lit ''scope.max_pages: must be a number'']
   \<and> expect_number [(lit ''requests_per_second'', JInt 2)] (lit ''requests_per_second'')
      (lit ''scope'') [] (Some (PFloat float_0_1)) False = []
   \<and> expect_number [(lit ''max_pages'', JInt 0)] (lit ''max_pages'') (lit ''scope'')
      [] (Some (PInt 1)) True = [lit ''scope.max_pages: must be >= 1'']"
  using
    C5_strict_type_tests [of "[(lit ''max_pages'', JBool True)]" "lit ''max_pages''" True
      "lit ''scope''" "[]" "Some (PInt 1)" True]
    C5_strict_type_tests [of "[(lit ''requests_per_second'', JBool False)]"
      "lit ''requests_per_second''" False "lit ''scope''" "[]" "Some (PFloat float_0_1)" False]
    C5_strict_type_tests [of "[(lit ''respect_robots_txt'', JInt 1)]" "lit ''respect_robots_txt''"
      _ "lit ''scope''" "[]" _ _ "JInt 1"]
    C5_strict_type_tests [of "[(lit ''respect_robots_txt'', JInt 0)]" "lit ''respect_robots_txt''"
      _ "lit ''scope''" "[]" _ _ "JInt 0"]
    C5_strict_type_tests [of "[(lit ''respect_robots_txt'', JFloat (Fin 1))]"
      "lit ''respect_robots_txt''" _ "lit ''scope''" "[]" _ _ "JFloat (Fin 1)"]
    C5_strict_type_tests [of "[(lit ''max_pages'', JFloat (Fin (5 / 2)))]" "lit ''max_pages''"
      _ "lit ''scope''" "[]" "Some (PInt 1)" _ _ "Fin (5 / 2)"]
    C5_strict_type_tests [of "[(lit ''requests_per_second'', JInt 2)]"
      "lit ''requests_per_second''" _ "lit ''scope''" "[]" "Some (PFloat float_0_1)" False _ _ 2]
    C5_strict_type_tests [of "[(lit ''max_pages'', JInt 0)]" "lit ''max_pages''" _ "lit ''scope''"
      "[]" "Some (PInt 1)" True _ _ 0]
  by (simp add: add_error_def num_less_def float_0_1_def)

subsection \<open>Capture\<close>

text \<open>
  Claim C9. When \<open>capture.screenshots\<close> is an object whose \<open>desktop\<close> is present
  and not a boolean, the errors that one run of the capture validator appends at the
  path \<open>capture.screenshots.desktop\<close> are two: \<open>must be boolean\<close>, then
  \<open>must be true (required)\<close>.
\<close>

theorem C9_desktop_non_boolean_two_errors:
  assumes "py_get cfg (lit ''capture'') = JObj capture"
    and "py_get capture (lit ''screenshots'') = JObj screenshots"
    and "map_of screenshots (lit ''desktop'') = Some v"
    and "\<not> is_bool v"
  shows "filter (prefix (lit ''capture.screenshots.desktop:''))
           (drop (length errors) (fst (validate_capture cfg (errors, warnings))))
         = [lit ''capture.screenshots.desktop: must be boolean'',
            lit ''capture.screenshots.desktop: must be true (required)'']"
proof -
  have v: "v \<noteq> JBool True"
    using assms(4) by auto
  show ?thesis
    using assms v
    by (simp add: validate_capture_def Let_def py_get_def add_error_def add_warn_def
          expect_bool_append bool_findings_filter filter_if)
qed

theorem C9_desktop_non_boolean_two_errors_witness:
  "filter (prefix (lit ''capture.screenshots.desktop:''))
     (drop (length ([] :: pystr list)) (fst (validate_capture desktop_string_cfg ([], []))))
   = [lit ''capture.screenshots.desktop: must be boolean'',
      lit ''capture.screenshots.desktop: must be true (required)'']"
proof -
  have a1: "py_get desktop_string_cfg (lit ''capture'')
              = JObj [(lit ''screenshots'', JObj [(lit ''desktop'', JStr (lit ''yes''))])]"
    by (simp add: desktop_string_cfg_def py_get_def)
  have a2: "py_get [(lit ''screenshots'', JObj [(lit ''desktop'', JStr (lit ''yes''))])]
              (lit ''screenshots'') = JObj [(lit ''desktop'', JStr (lit ''yes''))]"
    by (simp add: py_get_def)
  have a3: "map_of [(lit ''desktop'', JStr (lit ''yes''))] (lit ''desktop'')
              = Some (JStr (lit ''yes''))"
    by simp
  have a4: "\<not> is_bool (JStr (lit ''yes''))"
    by simp
  show ?thesis
    by (rule C9_desktop_non_boolean_two_errors [OF a1 a2 a3 a4])
qed

subsection \<open>Quality\<close>

lemma float_less_below_zero:
  "float_less x (Fin 0) \<Longrightarrow> \<not> float_less (Fin 1) x \<and> float_less x float_0_7"
  by (cases x) (simp_all add: float_0_7_def)

lemma quality_findings:
  assumes "py_get cfg (lit ''quality'') = JObj quality"
    and "map_of quality (lit ''canonical_token_confidence_threshold'') = Some v"
    and "as_num v = Some t"
  shows "count_list (new_errors (errors, warnings) (validate_quality ord cfg (errors, warnings)))
           (lit ''quality.canonical_token_confidence_threshold: must be <= 1'')
         = (if num_less (PInt 1) t then 1 else 0)"
    and "count_list (new_warnings (errors, warnings) (validate_quality ord cfg (errors, warnings)))
           (lit ''quality.canonical_token_confidence_threshold: below recommended default 0.70'')
         = (if \<not> num_less (PInt 1) t \<and> num_less t (PFloat float_0_7) then 1 else 0)"
    and "count_list (new_errors (errors, warnings) (validate_quality ord cfg (errors, warnings)))
           (lit ''quality.canonical_token_confidence_threshold: must be >= 0.0'')
         = (if num_less t (PFloat (Fin 0)) then 1 else 0)"
  using assms
  by (simp_all add: validate_quality_def new_errors_def new_warnings_def Let_def py_get_def
        add_error_def add_warn_def expect_bool_append expect_number_append
        number_findings_numeric bool_findings_count count_list_if
        split: sum.splits)

text \<open>
  Claim C3. For a numeric \<open>quality.canonical_token_confidence_threshold\<close>, one run of
  the quality validator appends the error \<open>must be <= 1\<close> once if the value is greater
  than 1 and not at all otherwise, and appends the warning
  \<open>below recommended default 0.70\<close> once if the value is not greater than 1 and is
  less than 0.7, and not at all otherwise. So a value in the range from 0.7 to 1 has
  neither, and no value has both.
\<close>

theorem C3_threshold_error_or_warning:
  assumes "py_get cfg (lit ''quality'') = JObj quality"
    and "map_of quality (lit ''canonical_token_confidence_threshold'') = Some v"
    and "as_num v = Some t"
  shows "count_list (new_errors (errors, warnings) (validate_quality ord cfg (errors, warnings)))
           (lit ''quality.canonical_token_confidence_threshold: must be <= 1'')
         = (if num_less (PInt 1) t then 1 else 0)
       \<and> count_list
           (new_warnings (errors, warnings) (validate_quality ord cfg (errors, warnings)))
           (lit ''quality.canonical_token_confidence_threshold: below recommended default 0.70'')
         = (if num_less (PInt 1) t then 0 else if num_less t (PFloat float_0_7) then 1 else 0)"
  using quality_findings(1,2) [OF assms] by simp

theorem C3_threshold_error_or_warning_witness:
  "count_list (new_errors ([], []) (validate_quality source_orders
       (quality_cfg (JFloat (Fin (5404319552844595 / 4503599627370496)))) ([], [])))
     (lit ''quality.canonical_token_confidence_threshold: must be <= 1'') = 1
   \<and> count_list (new_warnings ([], []) (validate_quality source_orders
       (quality_cfg (JFloat (Fin (5404319552844595 / 4503599627370496)))) ([], [])))
     (lit ''quality.canonical_token_confidence_threshold: below recommended default 0.70'') = 0
   \<and> count_list (new_errors ([], []) (validate_quality source_orders
       (quality_cfg (JFloat (Fin (1 / 2)))) ([], [])))
     (lit ''quality.canonical_token_confidence_threshold: must be <= 1'') = 0
   \<and> count_list (new_warnings ([], []) (validate_quality source_orders
       (quality_cfg (JFloat (Fin (1 / 2)))) ([], [])))
     (lit ''quality.canonical_token_confidence_threshold: below recommended default 0.70'') = 1
   \<and> count_list (new_errors ([], []) (validate_quality source_orders
       (quality_cfg (JFloat (Fin (3602879701896397 / 4503599627370496)))) ([], [])))
     (lit ''quality.canonical_token_confidence_threshold: must be <= 1'') = 0
   \<and> count_list (new_warnings ([], []) (validate_quality source_orders
       (quality_cfg (JFloat (Fin (3602879701896397 / 4503599627370496)))) ([], [])))
     (lit ''quality.canonical_token_confidence_threshold: below recommended default 0.70'') = 0"
proof -
  have a1: "py_get (quality_cfg x) (lit ''quality'')
              = JObj [(lit ''canonical_token_confidence_threshold'', x)]" for x
    by (simp add: quality_cfg_def py_get_def)
  have a2: "map_of [(lit ''canonical_token_confidence_threshold'', x)]
              (lit ''canonical_token_confidence_threshold'') = Some x" for x :: json
    by simp
  have a3: "as_num (JFloat f) = Some (PFloat f)" for f
    by simp
  show ?thesis
    using
      C3_threshold_error_or_warning [where errors = "[]" and warnings = "[]" and ord = source_orders,
        OF a1 [of "JFloat (Fin (5404319552844595 / 4503599627370496))"] a2 a3]
      C3_threshold_error_or_warning [where errors = "[]" and warnings = "[]" and ord = source_orders,
        OF a1 [of "JFloat (Fin (1 / 2))"] a2 a3]
      C3_threshold_error_or_warning [where errors = "[]" and warnings = "[]" and ord = source_orders,
        OF a1 [of "JFloat (Fin (3602879701896397 / 4503599627370496))"] a2 a3]
    by (simp add: num_less_def float_0_7_def)
qed

text \<open>
  Claim C10. For a numeric \<open>quality.canonical_token_confidence_threshold\<close> below 0, one
  run of the quality validator appends the error \<open>must be >= 0.0\<close> at the path of the
  field, and the warning \<open>below recommended default 0.70\<close> as well.
\<close>

theorem C10_threshold_lower_bound:
  assumes "py_get cfg (lit ''quality'') = JObj quality"
    and "map_of quality (lit ''canonical_token_confidence_threshold'') = Some v"
    and "as_num v = Some t"
    and "num_less t (PFloat (Fin 0))"
  shows "count_list (new_errors (errors, warnings) (validate_quality ord cfg (errors, warnings)))
           (lit ''quality.canonical_token_confidence_threshold: must be >= 0.0'') = 1
       \<and> count_list
           (new_warnings (errors, warnings) (validate_quality ord cfg (errors, warnings)))
           (lit ''quality.canonical_token_confidence_threshold: below recommended default 0.70'')
         = 1"
proof -
  from assms(4) have "\<not> num_less (PInt 1) t \<and> num_less t (PFloat float_0_7)"
    using float_less_below_zero [of "num_value t"] by (simp add: num_less_def)
  with assms(4) quality_findings(2,3) [OF assms(1,2,3)] show ?thesis
    by simp
qed

theorem C10_threshold_lower_bound_witness:
  "count_list (new_errors ([], []) (validate_quality source_orders (quality_cfg (JInt (- 1))) ([], [])))
     (lit ''quality.canonical_token_confidence_threshold: must be >= 0.0'') = 1
   \<and> count_list (new_warnings ([], []) (validate_quality source_orders (quality_cfg (JInt (- 1))) ([], [])))
     (lit ''quality.canonical_token_confidence_threshold: below recommended default 0.70'') = 1"
proof -
  have a1: "py_get (quality_cfg (JInt (- 1))) (lit ''quality'')
              = JObj [(lit ''canonical_token_confidence_threshold'', JInt (- 1))]"
    by (simp add: quality_cfg_def py_get_def)
  have a2: "map_of [(lit ''canonical_token_confidence_threshold'', JInt (- 1))]
              (lit ''canonical_token_confidence_threshold'') = Some (JInt (- 1))"
    by simp
  have a3: "as_num (JInt (- 1)) = Some (PInt (- 1))"
    by simp
  have a4: "num_less (PInt (- 1)) (PFloat (Fin 0))"
    by (simp add: num_less_def)
  show ?thesis
    by (rule C10_threshold_lower_bound [OF a1 a2 a3 a4])
qed

subsection \<open>Runs on the example configurations\<close>

lemma strip_Acme: "strip (lit ''Acme'') \<noteq> []"
  by (simp add: strip_def lit_def is_space_def)

lemmas eval_defs =
  py_get_def not_in_set_def is_http_url_def sublist_code(3) add_error_def add_warn_def
  ALLOWED_AUDIENCES_def ALLOWED_INTENDED_USE_def ALLOWED_CRAWL_MODES_def ALLOWED_FALLBACKS_def
  DEFAULT_EXCLUDE_HINTS_def expect_bool_def expect_number_def num_less_def float_0_1_def
  float_0_7_def then_run_def Let_def

lemma valid_project: "validate_project ord (valid_cfg m) st = (st, None)"
  by (cases st) (simp add: validate_project_def valid_cfg_def strip_Acme eval_defs)

lemma valid_scope: "validate_scope ord (valid_cfg m) st = (st, None)"
  by (cases st)
    (simp add: validate_scope_def valid_cfg_def scope_custom_urls_rule_def
       scope_sitemap_rule_def eval_defs)

lemma valid_capture:
  "validate_capture (valid_cfg m) (errors, warnings)
     = (errors, if m then warnings
                else warnings @ [lit ''capture.screenshots.mobile: recommended true for better visual hierarchy coverage''])"
  by (simp add: validate_capture_def valid_cfg_def eval_defs)

lemma valid_quality: "validate_quality ord (valid_cfg m) st = (st, None)"
  by (cases st) (simp add: validate_quality_def valid_cfg_def eval_defs)

lemma valid_guardrails: "validate_guardrails (valid_cfg m) errors = errors"
  by (simp add: validate_guardrails_def valid_cfg_def eval_defs)

lemma valid_output: "validate_output (valid_cfg m) warnings = warnings"
  by (simp add: validate_output_def valid_cfg_def eval_defs)

lemma valid_run:
  "run_section_validators ord (valid_cfg m)
     = (([], if m then []
             else [lit ''capture.screenshots.mobile: recommended true for better visual hierarchy coverage'']),
        None)"
  by (simp add: run_section_validators_def valid_project valid_scope valid_capture
        valid_quality valid_guardrails valid_output then_run_def)

subsection \<open>Determinism\<close>

lemma py_sorted_enumerates:
  assumes "enumerates xs S" and "enumerates ys S"
  shows "py_sorted xs = py_sorted ys"
proof -
  have "set (sort xs) = set (sort ys)"
    using assms by (simp add: enumerates_def)
  moreover have "distinct (sort xs)" and "distinct (sort ys)"
    using assms by (simp_all add: enumerates_def)
  ultimately show ?thesis
    unfolding py_sorted_def
    by (intro sorted_distinct_set_unique) simp_all
qed

text \<open>
  Claim C7. Two runs of the validator on the same configuration with the same strict
  flag leave the same error list and the same warning list, entry by entry, and print
  and return the same, whatever the order in which each run iterates over the constant
  sets (the only thing that differs between two interpreter processes).
\<close>

theorem C7_findings_are_deterministic:
  assumes "valid_orders ord1" and "valid_orders ord2"
  shows "collect_findings ord1 strict cfg = collect_findings ord2 strict cfg
         \<and> main ord1 strict loaded = main ord2 strict loaded"
proof -
  have a: "py_sorted (audiences_order ord1) = py_sorted (audiences_order ord2)"
    and i: "py_sorted (intended_use_order ord1) = py_sorted (intended_use_order ord2)"
    and c: "py_sorted (crawl_modes_order ord1) = py_sorted (crawl_modes_order ord2)"
    and f: "py_sorted (fallbacks_order ord1) = py_sorted (fallbacks_order ord2)"
    using assms by (auto simp: valid_orders_def intro: py_sorted_enumerates)
  have p: "validate_project ord1 = validate_project ord2"
    unfolding validate_project_def a i by (rule refl)
  have s: "validate_scope ord1 = validate_scope ord2"
    unfolding validate_scope_def c by (rule refl)
  have q: "validate_quality ord1 = validate_quality ord2"
    unfolding validate_quality_def f by (rule refl)
  have r: "run_section_validators ord1 = run_section_validators ord2"
    unfolding run_section_validators_def p s q by (rule refl)
  have cf: "collect_findings ord1 = collect_findings ord2"
    unfolding collect_findings_def r by (rule refl)
  show ?thesis
    unfolding main_def cf by simp
qed

lemma valid_source_orders: "valid_orders source_orders"
  by (auto simp: valid_orders_def enumerates_def source_orders_def ALLOWED_AUDIENCES_def
        ALLOWED_INTENDED_USE_def ALLOWED_CRAWL_MODES_def ALLOWED_FALLBACKS_def)

lemma valid_reversed_orders: "valid_orders reversed_orders"
  by (auto simp: valid_orders_def enumerates_def reversed_orders_def ALLOWED_AUDIENCES_def
        ALLOWED_INTENDED_USE_def ALLOWED_CRAWL_MODES_def ALLOWED_FALLBACKS_def)

theorem C7_findings_are_deterministic_witness:
  "valid_orders source_orders \<and> valid_orders reversed_orders
   \<and> audiences_order source_orders \<noteq> audiences_order reversed_orders
   \<and> collect_findings source_orders True empty_sections_cfg
       = collect_findings reversed_orders True empty_sections_cfg
   \<and> main source_orders True (Inr (JObj empty_sections_cfg))
       = main reversed_orders True (Inr (JObj empty_sections_cfg))"
  using C7_findings_are_deterministic [OF valid_source_orders valid_reversed_orders,
      of True empty_sections_cfg "Inr (JObj empty_sections_cfg)"]
    valid_source_orders valid_reversed_orders
  by (simp add: source_orders_def reversed_orders_def)

subsection \<open>Guardrails\<close>

text \<open>
  The pass made under \<open>--strict-guardrails\<close>, taken alone, appends one error when
  \<open>guardrails\<close> is not an object (absent included); when it is an object, the pass
  appends, for each of the three confirmation keys in turn, one error naming the key
  exactly if the key's value is not \<open>True\<close>. For a \<open>guardrails\<close> object whose first
  two keys are \<open>True\<close> and whose third is \<open>False\<close>, the base pass appends no error
  with a \<open>guardrails\<close> path, and the strict pass after it appends exactly one, for the
  third key.
\<close>

lemma strict_guardrails_pass_appends:
  "(\<not> is_dict (py_get cfg (lit ''guardrails'')) \<longrightarrow>
      strict_guardrails_pass cfg errors
        = errors @ [lit ''guardrails: required when --strict-guardrails is set''])
   \<and> (py_get cfg (lit ''guardrails'') = JObj guardrails \<longrightarrow>
      strict_guardrails_pass cfg errors
        = errors @ concat (map (\<lambda>key. if py_get guardrails key \<noteq> JBool True
                                        then [lit ''guardrails.'' @ key
                                              @ lit '': must be true before crawling'']
                                        else [])
                             [lit ''public_access_confirmed'', lit ''non_clone_intent_confirmed'',
                              lit ''asset_rights_warning_confirmed'']))
   \<and> (py_get cfg (lit ''guardrails'') = JObj guardrails
        \<and> map_of guardrails (lit ''public_access_confirmed'') = Some (JBool True)
        \<and> map_of guardrails (lit ''non_clone_intent_confirmed'') = Some (JBool True)
        \<and> map_of guardrails (lit ''asset_rights_warning_confirmed'') = Some (JBool False) \<longrightarrow>
      filter (prefix (lit ''guardrails''))
          (drop (length errors) (validate_guardrails cfg errors)) = []
      \<and> strict_guardrails_pass cfg (validate_guardrails cfg errors)
          = validate_guardrails cfg errors
            @ [lit ''guardrails.asset_rights_warning_confirmed: must be true before crawling''])"
proof (intro conjI impI)
  assume "\<not> is_dict (py_get cfg (lit ''guardrails''))"
  then show "strict_guardrails_pass cfg errors
        = errors @ [lit ''guardrails: required when --strict-guardrails is set'']"
    by (cases "py_get cfg (lit ''guardrails'')")
      (simp_all add: strict_guardrails_pass_def add_error_def)
next
  assume "py_get cfg (lit ''guardrails'') = JObj guardrails"
  then show "strict_guardrails_pass cfg errors
        = errors @ concat (map (\<lambda>key. if py_get guardrails key \<noteq> JBool True
                                        then [lit ''guardrails.'' @ key
                                              @ lit '': must be true before crawling'']
                                        else [])
                             [lit ''public_access_confirmed'', lit ''non_clone_intent_confirmed'',
                              lit ''asset_rights_warning_confirmed''])"
    by (simp add: strict_guardrails_pass_def add_error_def)
next
  assume a: "py_get cfg (lit ''guardrails'') = JObj guardrails
        \<and> map_of guardrails (lit ''public_access_confirmed'') = Some (JBool True)
        \<and> map_of guardrails (lit ''non_clone_intent_confirmed'') = Some (JBool True)
        \<and> map_of guardrails (lit ''asset_rights_warning_confirmed'') = Some (JBool False)"
  then show "filter (prefix (lit ''guardrails''))
          (drop (length errors) (validate_guardrails cfg errors)) = []"
    by (simp add: validate_guardrails_def Let_def add_error_def)
next
  assume a: "py_get cfg (lit ''guardrails'') = JObj guardrails
        \<and> map_of guardrails (lit ''public_access_confirmed'') = Some (JBool True)
        \<and> map_of guardrails (lit ''non_clone_intent_confirmed'') = Some (JBool True)
        \<and> map_of guardrails (lit ''asset_rights_warning_confirmed'') = Some (JBool False)"
  then show "strict_guardrails_pass cfg (validate_guardrails cfg errors)
          = validate_guardrails cfg errors
            @ [lit ''guardrails.asset_rights_warning_confirmed: must be true before crawling'']"
    by (simp add: strict_guardrails_pass_def add_error_def py_get_def)
qed

lemma strict_guardrails_pass_examples:
  "strict_guardrails_pass [] [] = [lit ''guardrails: required when --strict-guardrails is set'']
   \<and> strict_guardrails_pass [(lit ''guardrails'', JObj [])] []
       = [lit ''guardrails.public_access_confirmed: must be true before crawling'',
          lit ''guardrails.non_clone_intent_confirmed: must be true before crawling'',
          lit ''guardrails.asset_rights_warning_confirmed: must be true before crawling'']
   \<and> validate_guardrails guardrails_cfg [] = []
   \<and> strict_guardrails_pass guardrails_cfg (validate_guardrails guardrails_cfg [])
       = [lit ''guardrails.asset_rights_warning_confirmed: must be true before crawling'']"
proof -
  have v: "validate_guardrails guardrails_cfg [] = []"
    by (simp add: validate_guardrails_def guardrails_cfg_def py_get_def Let_def)
  have g: "py_get guardrails_cfg (lit ''guardrails'')
             = JObj [(lit ''public_access_confirmed'', JBool True),
                     (lit ''non_clone_intent_confirmed'', JBool True),
                     (lit ''asset_rights_warning_confirmed'', JBool False)]"
    by (simp add: guardrails_cfg_def py_get_def)
  show ?thesis
    using strict_guardrails_pass_appends [of "[]" "[]"]
      strict_guardrails_pass_appends [of "[(lit ''guardrails'', JObj [])]" "[]" "[]"]
      strict_guardrails_pass_appends [of guardrails_cfg "[]"
        "[(lit ''public_access_confirmed'', JBool True),
          (lit ''non_clone_intent_confirmed'', JBool True),
          (lit ''asset_rights_warning_confirmed'', JBool False)]"]
      v g
    by (simp add: py_get_def)
qed

subsection \<open>The final decision\<close>

lemma empty_run:
  "run_section_validators ord []
     = (([lit ''mode: must equal '' @ repr_str (lit ''brand_faithful_modernization''),
          lit ''project: missing required object'',
          lit ''scope: missing required object'',
          lit ''capture: missing required object'',
          lit ''quality: missing required object''], []), None)"
  by (simp add: run_section_validators_def validate_project_def validate_scope_def
        validate_capture_def validate_quality_def validate_guardrails_def validate_output_def
        py_get_def add_error_def then_run_def Let_def)

text \<open>
  For every configuration object and either strict flag, \<open>main\<close> returns 1 exactly if
  the validators ran to the end and left a non-empty error list, and returns 0 exactly
  if they ran to the end and left an empty one, whatever the number of warnings; in
  that case the last line printed reports the number of warnings.
\<close>

lemma main_returns_by_error_list:
  "((\<exists>printed. main ord strict (Inr (JObj cfg)) = Inr (1, printed))
      \<longleftrightarrow> (\<exists>errors warnings. collect_findings ord strict cfg = ((errors, warnings), None)
                              \<and> errors \<noteq> []))
   \<and> ((\<exists>printed. main ord strict (Inr (JObj cfg)) = Inr (0, printed))
      \<longleftrightarrow> (\<exists>warnings. collect_findings ord strict cfg = (([], warnings), None)))
   \<and> (collect_findings ord strict cfg = (([], warnings), None) \<longrightarrow>
        main ord strict (Inr (JObj cfg))
          = Inr (0, map (\<lambda>warning. lit ''WARN: '' @ warning) warnings
                    @ [lit ''Config validation passed ('' @ str_int (int (length warnings))
                       @ lit '' warning(s))'']))"
proof -
  obtain errs warns exc where r: "collect_findings ord strict cfg = ((errs, warns), exc)"
    by (metis surj_pair)
  show ?thesis
  proof (cases exc)
    case None
    with r show ?thesis
      by (cases "errs = []") (auto simp: main_def report_def Let_def)
  next
    case (Some e)
    with r show ?thesis
      by (simp add: main_def)
  qed
qed

lemma main_returns_by_error_list_examples:
  "main source_orders False (Inr (JObj (valid_cfg False)))
     = Inr (0, [lit ''WARN: capture.screenshots.mobile: recommended true for better visual hierarchy coverage'',
                lit ''Config validation passed (1 warning(s))''])
   \<and> (\<exists>printed. main source_orders False (Inr (JObj [])) = Inr (1, printed))
   \<and> (\<exists>printed. main source_orders False (Inr (JObj (valid_cfg True))) = Inr (0, printed))"
proof -
  have a: "collect_findings source_orders False (valid_cfg False)
             = (([], [lit ''capture.screenshots.mobile: recommended true for better visual hierarchy coverage'']), None)"
    by (simp add: collect_findings_def valid_run then_run_def)
  have b: "\<exists>errors warnings. collect_findings source_orders False []
             = ((errors, warnings), None) \<and> errors \<noteq> []"
    by (simp add: collect_findings_def empty_run then_run_def)
  have c: "\<exists>warnings. collect_findings source_orders False (valid_cfg True)
             = (([], warnings), None)"
    by (simp add: collect_findings_def valid_run then_run_def)
  show ?thesis
    using main_returns_by_error_list [of source_orders False "valid_cfg False"
        "[lit ''capture.screenshots.mobile: recommended true for better visual hierarchy coverage'']"]
      main_returns_by_error_list [of source_orders False "[]"]
      main_returns_by_error_list [of source_orders False "valid_cfg True"]
      a b c
    by simp
qed

subsection \<open>Runs that an exception cuts short\<close>

text \<open>
  When the six validators return, the strict flag decides whether the strict pass is
  made on their error list; when one of them raises, the pass is not made and the
  exception leaves \<open>main\<close>. The process ends with status 1 exactly if an exception
  left \<open>main\<close> or the error list is non-empty.
\<close>

lemma collect_findings_when_validators_return:
  "run_section_validators ord cfg = ((errors, warnings), None) \<Longrightarrow>
   collect_findings ord strict cfg
     = ((if strict then strict_guardrails_pass cfg errors else errors, warnings), None)"
  by (simp add: collect_findings_def then_run_def)

lemma collect_findings_when_validator_raises:
  "run_section_validators ord cfg = (st, Some exc) \<Longrightarrow>
   collect_findings ord strict cfg = (st, Some exc)"
  by (simp add: collect_findings_def then_run_def)

lemma guardrails_cfg_run:
  "run_section_validators ord guardrails_cfg
     = (([lit ''project: missing required object'',
          lit ''scope: missing required object'',
          lit ''capture: missing required object'',
          lit ''quality: missing required object''], []), None)"
  by (simp add: run_section_validators_def validate_project_def validate_scope_def
        validate_capture_def validate_quality_def validate_guardrails_def validate_output_def
        guardrails_cfg_def py_get_def add_error_def then_run_def Let_def)

lemma list_audience_run:
  "run_section_validators ord list_audience_cfg = (([], []), Some TypeError)"
proof -
  have g: "validate_guardrails list_audience_cfg [] = []"
    by (simp add: validate_guardrails_def list_audience_cfg_def py_get_def)
  have p: "validate_project ord list_audience_cfg ([], []) = (([], []), Some TypeError)"
    by (simp add: validate_project_def list_audience_cfg_def py_get_def strip_Acme
          is_http_url_def sublist_code(3) not_in_set_def)
  show ?thesis
    by (simp add: run_section_validators_def g p then_run_def)
qed

lemma process_exit_status_iff:
  "process_exit_status (main ord strict (Inr (JObj cfg))) = 1
     \<longleftrightarrow> snd (collect_findings ord strict cfg) \<noteq> None
         \<or> fst (fst (collect_findings ord strict cfg)) \<noteq> []"
proof -
  obtain errs warns exc where r: "collect_findings ord strict cfg = ((errs, warns), exc)"
    by (metis surj_pair)
  show ?thesis
    using r
    by (cases exc) (auto simp: main_def report_def Let_def process_exit_status_def)
qed

text \<open>
  Claim C2 says that when strict mode is requested, a \<open>guardrails\<close> that is not an
  object (absent included) produces an error. The configuration \<open>list_audience_cfg\<close>
  has no \<open>guardrails\<close>; in its run with the strict flag \<open>validate_project\<close> raises
  \<open>TypeError\<close> before line 250 is reached, so the strict pass is not made, no error is
  appended and the exception leaves \<open>main\<close>. In runs that no exception cuts short the
  flag does what the claim says: on \<open>guardrails_cfg\<close> the run with the flag leaves
  exactly one error more than the run without it, for the key that is \<open>False\<close>, and
  on the empty configuration it leaves the error for the missing \<open>guardrails\<close>.
\<close>

theorem C2_strict_run_raises_before_pass:
  "py_get list_audience_cfg (lit ''guardrails'') = JNull
   \<and> collect_findings source_orders True list_audience_cfg = (([], []), Some TypeError)
   \<and> main source_orders True (Inr (JObj list_audience_cfg)) = Inl TypeError
   \<and> collect_findings source_orders True guardrails_cfg
       = (([lit ''project: missing required object'',
            lit ''scope: missing required object'',
            lit ''capture: missing required object'',
            lit ''quality: missing required object'',
            lit ''guardrails.asset_rights_warning_confirmed: must be true before crawling''],
           []), None)
   \<and> collect_findings source_orders False guardrails_cfg
       = (([lit ''project: missing required object'',
            lit ''scope: missing required object'',
            lit ''capture: missing required object'',
            lit ''quality: missing required object''], []), None)
   \<and> collect_findings source_orders True []
       = (([lit ''mode: must equal '' @ repr_str (lit ''brand_faithful_modernization''),
            lit ''project: missing required object'',
            lit ''scope: missing required object'',
            lit ''capture: missing required object'',
            lit ''quality: missing required object'',
            lit ''guardrails: required when --strict-guardrails is set''], []), None)"
proof -
  have a: "py_get list_audience_cfg (lit ''guardrails'') = JNull"
    by (simp add: list_audience_cfg_def py_get_def)
  have b: "collect_findings source_orders True list_audience_cfg = (([], []), Some TypeError)"
    by (rule collect_findings_when_validator_raises [OF list_audience_run])
  have c: "main source_orders True (Inr (JObj list_audience_cfg)) = Inl TypeError"
    by (simp add: main_def b)
  have d: "collect_findings source_orders True guardrails_cfg
       = (([lit ''project: missing required object'',
            lit ''scope: missing required object'',
            lit ''capture: missing required object'',
            lit ''quality: missing required object'',
            lit ''guardrails.asset_rights_warning_confirmed: must be true before crawling''],
           []), None)"
    using collect_findings_when_validators_return [OF guardrails_cfg_run, of source_orders True]
    by (simp add: strict_guardrails_pass_def guardrails_cfg_def py_get_def add_error_def)
  have e: "collect_findings source_orders False guardrails_cfg
       = (([lit ''project: missing required object'',
            lit ''scope: missing required object'',
            lit ''capture: missing required object'',
            lit ''quality: missing required object''], []), None)"
    using collect_findings_when_validators_return [OF guardrails_cfg_run, of source_orders False]
    by simp
  have f: "collect_findings source_orders True []
       = (([lit ''mode: must equal '' @ repr_str (lit ''brand_faithful_modernization''),
            lit ''project: missing required object'',
            lit ''scope: missing required object'',
            lit ''capture: missing required object'',
            lit ''quality: missing required object'',
            lit ''guardrails: required when --strict-guardrails is set''], []), None)"
    using collect_findings_when_validators_return [OF empty_run, of source_orders True]
    by (simp add: strict_guardrails_pass_def py_get_def add_error_def)
  show ?thesis
    by (intro conjI a b c d e f)
qed

text \<open>
  Claim C1 says that the process exits with status 1 exactly if the error list is
  non-empty at the end of the run, and that a run with an empty error list exits 0. In
  the run on \<open>list_audience_cfg\<close> the error list is empty when \<open>validate_project\<close>
  raises \<open>TypeError\<close>; the exception leaves \<open>main\<close>, nothing is printed, and the
  process ends with status 1. The run on a valid configuration ends with status 0.
\<close>

theorem C1_exit_1_with_empty_error_list:
  "collect_findings source_orders False list_audience_cfg = (([], []), Some TypeError)
   \<and> main source_orders False (Inr (JObj list_audience_cfg)) = Inl TypeError
   \<and> process_exit_status (main source_orders False (Inr (JObj list_audience_cfg))) = 1
   \<and> process_exit_status (main source_orders False (Inr (JObj (valid_cfg True)))) = 0"
proof -
  have b: "collect_findings source_orders False list_audience_cfg = (([], []), Some TypeError)"
    by (rule collect_findings_when_validator_raises [OF list_audience_run])
  have c: "main source_orders False (Inr (JObj list_audience_cfg)) = Inl TypeError"
    by (simp add: main_def b)
  have d: "process_exit_status (main source_orders False (Inr (JObj list_audience_cfg))) = 1"
    by (simp add: c process_exit_status_def)
  have e: "process_exit_status (main source_orders False (Inr (JObj (valid_cfg True)))) = 0"
    by (simp add: main_def collect_findings_def valid_run then_run_def report_def
          process_exit_status_def)
  show ?thesis
    by (intro conjI b c d e)
qed

subsection \<open>Exceptions leaving a validator\<close>

text \<open>
  Each of the four required sections, when absent or not an object, gets one error, and
  its validator returns at once. A validator raises exactly when a value it tests for
  membership in one of the constant sets is a list or an object, and all six validators
  run exactly when none raises.
\<close>

lemma missing_project_one_error:
  "\<not> is_dict (py_get cfg (lit ''project'')) \<Longrightarrow>
     validate_project ord cfg (errors, warnings)
       = ((errors @ [lit ''project: missing required object''], warnings), None)"
  by (cases "py_get cfg (lit ''project'')") (simp_all add: validate_project_def add_error_def)

lemma missing_scope_one_error:
  "\<not> is_dict (py_get cfg (lit ''scope'')) \<Longrightarrow>
     validate_scope ord cfg (errors, warnings)
       = ((errors @ [lit ''scope: missing required object''], warnings), None)"
  by (cases "py_get cfg (lit ''scope'')") (simp_all add: validate_scope_def add_error_def)

lemma missing_capture_one_error:
  "\<not> is_dict (py_get cfg (lit ''capture'')) \<Longrightarrow>
     validate_capture cfg (errors, warnings)
       = (errors @ [lit ''capture: missing required object''], warnings)"
  by (cases "py_get cfg (lit ''capture'')") (simp_all add: validate_capture_def add_error_def)

lemma missing_quality_one_error:
  "\<not> is_dict (py_get cfg (lit ''quality'')) \<Longrightarrow>
     validate_quality ord cfg (errors, warnings)
       = ((errors @ [lit ''quality: missing required object''], warnings), None)"
  by (cases "py_get cfg (lit ''quality'')") (simp_all add: validate_quality_def add_error_def)

lemma validate_project_raises_iff:
  "snd (validate_project ord cfg st) = Some TypeError
     \<longleftrightarrow> (\<exists>project. py_get cfg (lit ''project'') = JObj project
                    \<and> (\<not> hashable (py_get project (lit ''output_audience''))
                        \<or> \<not> hashable (py_get project (lit ''intended_use''))))"
  by (cases st)
    (auto simp: validate_project_def not_in_set_def Let_def split: json.splits prod.splits)

lemma validate_quality_raises_iff:
  "snd (validate_quality ord cfg st) = Some TypeError
     \<longleftrightarrow> (\<exists>quality. py_get cfg (lit ''quality'') = JObj quality
                    \<and> \<not> hashable (py_get quality (lit ''low_confidence_fallback'')))"
  by (cases st)
    (auto simp: validate_quality_def not_in_set_def Let_def
       split: json.splits prod.splits option.splits)

lemma validate_scope_raises_iff:
  "snd (validate_scope ord cfg st) = Some TypeError
     \<longleftrightarrow> (\<exists>scope. py_get cfg (lit ''scope'') = JObj scope
                    \<and> \<not> hashable (py_get scope (lit ''crawl_mode'')))"
  by (cases st)
    (auto simp: validate_scope_def not_in_set_def Let_def split: json.splits prod.splits)

lemma not_raised_iff: "x \<noteq> Some TypeError \<longleftrightarrow> x = None"
  by (cases x) (auto intro: py_error.exhaust)

lemma all_validators_run_iff:
  "snd (run_section_validators ord cfg) = None
     \<longleftrightarrow> \<not> (\<exists>project. py_get cfg (lit ''project'') = JObj project
                    \<and> (\<not> hashable (py_get project (lit ''output_audience''))
                        \<or> \<not> hashable (py_get project (lit ''intended_use''))))
         \<and> \<not> (\<exists>scope. py_get cfg (lit ''scope'') = JObj scope
                    \<and> \<not> hashable (py_get scope (lit ''crawl_mode'')))
         \<and> \<not> (\<exists>quality. py_get cfg (lit ''quality'') = JObj quality
                    \<and> \<not> hashable (py_get quality (lit ''low_confidence_fallback'')))"
proof -
  obtain s1 x1 where r1: "validate_project ord cfg (validate_guardrails cfg [], []) = (s1, x1)"
    by (cases "validate_project ord cfg (validate_guardrails cfg [], [])")
  obtain s2 x2 where r2: "validate_scope ord cfg s1 = (s2, x2)"
    by (cases "validate_scope ord cfg s1")
  obtain s3 x3 where r3: "validate_quality ord cfg (validate_capture cfg s2) = (s3, x3)"
    by (cases "validate_quality ord cfg (validate_capture cfg s2)")
  have p: "x1 = None \<longleftrightarrow> \<not> (\<exists>project. py_get cfg (lit ''project'') = JObj project
                    \<and> (\<not> hashable (py_get project (lit ''output_audience''))
                        \<or> \<not> hashable (py_get project (lit ''intended_use''))))"
    using validate_project_raises_iff [of ord cfg "(validate_guardrails cfg [], [])"] r1
      not_raised_iff [of x1] by simp
  have s: "x2 = None \<longleftrightarrow> \<not> (\<exists>scope. py_get cfg (lit ''scope'') = JObj scope
                    \<and> \<not> hashable (py_get scope (lit ''crawl_mode'')))"
    using validate_scope_raises_iff [of ord cfg s1] r2 not_raised_iff [of x2] by simp
  have q: "x3 = None \<longleftrightarrow> \<not> (\<exists>quality. py_get cfg (lit ''quality'') = JObj quality
                    \<and> \<not> hashable (py_get quality (lit ''low_confidence_fallback'')))"
    using validate_quality_raises_iff [of ord cfg "validate_capture cfg s2"] r3
      not_raised_iff [of x3] by simp
  have "snd (run_section_validators ord cfg) = None \<longleftrightarrow> x1 = None \<and> x2 = None \<and> x3 = None"
    using r1 r2 r3
    by (cases x1; cases x2; cases x3)
      (simp_all add: run_section_validators_def then_run_def split: prod.splits)
  then show ?thesis
    unfolding p s q .
qed

text \<open>
  Claim C6 says that no exception escapes any validator and that all six validators
  run in every invocation. On the configuration \<open>list_audience_cfg\<close>, whose
  \<open>project.output_audience\<close> is a list, the membership test of \<open>validate_project\<close>
  raises \<open>TypeError\<close>: the exception leaves the validator and then \<open>main\<close>, with
  either strict flag, and the validators after it do not run.
\<close>

theorem C6_exception_escapes_validator:
  "validate_project source_orders list_audience_cfg ([], []) = (([], []), Some TypeError)
   \<and> run_section_validators source_orders list_audience_cfg = (([], []), Some TypeError)
   \<and> main source_orders False (Inr (JObj list_audience_cfg)) = Inl TypeError
   \<and> main source_orders True (Inr (JObj list_audience_cfg)) = Inl TypeError"
proof -
  have g: "validate_guardrails list_audience_cfg [] = []"
    by (simp add: validate_guardrails_def list_audience_cfg_def py_get_def)
  have p: "validate_project source_orders list_audience_cfg ([], []) = (([], []), Some TypeError)"
    by (simp add: validate_project_def list_audience_cfg_def py_get_def strip_Acme
          is_http_url_def sublist_code(3) not_in_set_def)
  have r: "run_section_validators source_orders list_audience_cfg = (([], []), Some TypeError)"
    by (simp add: run_section_validators_def g p then_run_def)
  show ?thesis
    by (simp add: p r main_def collect_findings_def then_run_def)
qed

subsection \<open>Scope\<close>

text \<open>
  The two rule blocks of \<open>validate_scope\<close>, taken alone, do what the scope rules ask
  for every value of \<open>crawl_mode\<close>; \<open>validate_scope\<close> reaches them unless its
  membership test on \<open>crawl_mode\<close> has raised.
\<close>

lemma scope_custom_urls_rule_cases:
  "crawl_mode = JStr (lit ''custom_urls'') \<Longrightarrow>
     (\<forall>urls. py_get scope (lit ''custom_urls'') = JList urls \<longrightarrow> urls = []) \<Longrightarrow>
     scope_custom_urls_rule crawl_mode scope (errors, warnings)
       = (errors @ [lit ''scope.custom_urls: required non-empty list when crawl_mode=custom_urls''],
          warnings)"
  "crawl_mode = JStr (lit ''custom_urls'') \<Longrightarrow>
     py_get scope (lit ''custom_urls'') = JList urls \<Longrightarrow> urls \<noteq> [] \<Longrightarrow>
     \<not> list_all is_http_url urls \<Longrightarrow>
     scope_custom_urls_rule crawl_mode scope (errors, warnings)
       = (errors @ [lit ''scope.custom_urls: all entries must be http(s) URLs''], warnings)"
  "crawl_mode = JStr (lit ''custom_urls'') \<Longrightarrow>
     py_get scope (lit ''custom_urls'') = JList urls \<Longrightarrow> urls \<noteq> [] \<Longrightarrow>
     list_all is_http_url urls \<Longrightarrow>
     scope_custom_urls_rule crawl_mode scope (errors, warnings) = (errors, warnings)"
  "crawl_mode \<noteq> JStr (lit ''custom_urls'') \<Longrightarrow>
     map_of scope (lit ''custom_urls'') = Some v \<Longrightarrow> truthy v \<Longrightarrow>
     scope_custom_urls_rule crawl_mode scope (errors, warnings)
       = (errors, warnings @ [lit ''scope.custom_urls: ignored unless crawl_mode=custom_urls''])"
  "crawl_mode \<noteq> JStr (lit ''custom_urls'') \<Longrightarrow>
     \<not> truthy (py_get scope (lit ''custom_urls'')) \<Longrightarrow>
     scope_custom_urls_rule crawl_mode scope (errors, warnings) = (errors, warnings)"
  by (auto simp: scope_custom_urls_rule_def add_error_def add_warn_def py_get_def
        split: json.splits option.splits)

lemma scope_sitemap_rule_cases:
  "crawl_mode = JStr (lit ''sitemap'') \<Longrightarrow>
     \<not> is_http_url (py_get scope (lit ''sitemap_url'')) \<Longrightarrow>
     scope_sitemap_rule crawl_mode scope (errors, warnings)
       = (errors @ [lit ''scope.sitemap_url: required http(s) URL when crawl_mode=sitemap''],
          warnings)"
  "crawl_mode = JStr (lit ''sitemap'') \<Longrightarrow>
     is_http_url (py_get scope (lit ''sitemap_url'')) \<Longrightarrow>
     scope_sitemap_rule crawl_mode scope (errors, warnings) = (errors, warnings)"
  "crawl_mode \<noteq> JStr (lit ''sitemap'') \<Longrightarrow>
     map_of scope (lit ''sitemap_url'') = Some v \<Longrightarrow> truthy v \<Longrightarrow>
     scope_sitemap_rule crawl_mode scope (errors, warnings)
       = (errors, warnings @ [lit ''scope.sitemap_url: ignored unless crawl_mode=sitemap''])"
  "crawl_mode \<noteq> JStr (lit ''sitemap'') \<Longrightarrow>
     \<not> truthy (py_get scope (lit ''sitemap_url'')) \<Longrightarrow>
     scope_sitemap_rule crawl_mode scope (errors, warnings) = (errors, warnings)"
  by (auto simp: scope_sitemap_rule_def add_error_def add_warn_def py_get_def
        split: option.splits)

text \<open>
  Claim C4 says that for every \<open>scope\<close> object with \<open>crawl_mode\<close> other than
  \<open>custom_urls\<close> and a non-empty \<open>custom_urls\<close>, a warning that it is ignored is
  emitted. With \<open>crawl_mode\<close> the list \<open>["sitemap"]\<close>, \<open>validate_scope\<close> raises
  \<open>TypeError\<close> before its rules and appends no warning, where the same scope with
  \<open>crawl_mode\<close> \<open>representative_sample\<close> gets the warning.
\<close>

theorem C4_list_crawl_mode_no_warning:
  "validate_scope source_orders list_crawl_mode_cfg ([], []) = (([], []), Some TypeError)
   \<and> new_warnings ([], []) (validate_scope source_orders list_crawl_mode_cfg ([], [])) = []
   \<and> new_warnings ([], []) (validate_scope source_orders sample_crawl_mode_cfg ([], []))
       = [lit ''scope.custom_urls: ignored unless crawl_mode=custom_urls'']"
proof -
  have a: "validate_scope source_orders list_crawl_mode_cfg ([], []) = (([], []), Some TypeError)"
    by (simp add: validate_scope_def list_crawl_mode_cfg_def py_get_def not_in_set_def)
  have b: "new_warnings ([], []) (validate_scope source_orders sample_crawl_mode_cfg ([], []))
       = [lit ''scope.custom_urls: ignored unless crawl_mode=custom_urls'']"
    by (simp add: validate_scope_def sample_crawl_mode_cfg_def py_get_def not_in_set_def
          ALLOWED_CRAWL_MODES_def Let_def new_warnings_def scope_custom_urls_rule_def
          scope_sitemap_rule_def add_error_def add_warn_def expect_number_append
          expect_bool_append)
  have c: "new_warnings ([], []) (validate_scope source_orders list_crawl_mode_cfg ([], [])) = []"
    by (simp add: a new_warnings_def)
  show ?thesis
    by (intro conjI a b c)
qed

subsection \<open>The output package checker\<close>

lemma missing_required_files_append:
  "foldl (\<lambda>errors rel. if \<not> path_exists env rel
                        then errors @ [lit ''Missing required file: '' @ path_text env rel]
                        else errors) acc rels
     = acc @ map (\<lambda>rel. lit ''Missing required file: '' @ path_text env rel)
               (filter (\<lambda>rel. \<not> path_exists env rel) rels)"
  by (induction rels arbitrary: acc) simp_all

lemma missing_required_files_eq:
  "missing_required_files env
     = map (\<lambda>rel. lit ''Missing required file: '' @ path_text env rel)
         (filter (\<lambda>rel. \<not> path_exists env rel) REQUIRED_PATHS)"
  by (simp add: missing_required_files_def missing_required_files_append)

lemma missing_required_files_iff:
  "missing_required_files env \<noteq> [] \<longleftrightarrow> (\<exists>rel \<in> set REQUIRED_PATHS. \<not> path_exists env rel)"
  by (simp add: missing_required_files_eq filter_empty_conv)

lemma package_missing_exits_first:
  assumes "\<exists>rel \<in> set REQUIRED_PATHS. \<not> path_exists env rel"
  shows "output_package_main env
           = Inr (1, map (\<lambda>msg. lit ''ERROR: '' @ msg) (missing_required_files env)
                     @ [lit ''Validation failed (''
                        @ str_int (int (length (missing_required_files env)))
                        @ lit '' missing required files)''])"
  using assms missing_required_files_iff [of env]
  by (simp add: output_package_main_def Let_def)

lemma package_exit_code_when_reports_read:
  assumes "\<forall>rel \<in> set REQUIRED_PATHS. path_exists env rel"
    and "read_text env (lit ''reports/preserve-normalize-improve-exclude.md'') = Inr pnie"
    and "read_text env (lit ''reports/executive-summary.md'') = Inr summary"
  shows "\<exists>printed. output_package_main env
           = Inr (if fst (json_shape_checks env) \<noteq> [] then 1 else 0, printed)"
proof -
  have "missing_required_files env = []"
    using assms(1) missing_required_files_iff [of env] by blast
  then show ?thesis
    using assms(2,3)
    by (cases "json_shape_checks env") (simp add: output_package_main_def Let_def)
qed

lemma package_raises_when_report_unreadable:
  assumes "\<forall>rel \<in> set REQUIRED_PATHS. path_exists env rel"
    and "read_text env (lit ''reports/preserve-normalize-improve-exclude.md'') = Inl exc"
  shows "output_package_main env = Inl exc"
proof -
  have "missing_required_files env = []"
    using assms(1) missing_required_files_iff [of env] by blast
  then show ?thesis
    using assms(2)
    by (cases "json_shape_checks env") (simp add: output_package_main_def Let_def)
qed

lemma complete_package_json: "json_shape_checks (complete_package_env pnie) = ([], [])"
  by (simp add: json_shape_checks_def check_tokens_file_def check_keys_of_file_def
        parse_json_def require_keys_def complete_package_env_def Let_def)

text \<open>
  Claim C8 says that the checker exits 1 exactly if a required path is missing or a
  checked JSON file fails to parse or to have its shape, and exits 0 otherwise. In the
  package \<open>complete_package_env\<close> no required file is missing and the JSON checks
  find nothing; when the PNIE report cannot be read as text, the exception leaves
  \<open>main\<close>, which returns neither 0 nor 1, where the same package with a readable report
  returns 0.
\<close>

theorem C8_unreadable_report_raises:
  "missing_required_files (complete_package_env (Inl (lit ''invalid start byte''))) = []
   \<and> json_shape_checks (complete_package_env (Inl (lit ''invalid start byte''))) = ([], [])
   \<and> output_package_main (complete_package_env (Inl (lit ''invalid start byte'')))
       = Inl (lit ''invalid start byte'')
   \<and> output_package_main
        (complete_package_env (Inr (lit ''Preserve, Normalize, Improve, Exclude'')))
       = Inr (0, [lit ''Validation passed with 0 warning(s)''])"
proof -
  have e: "\<forall>rel \<in> set REQUIRED_PATHS. path_exists (complete_package_env x) rel" for x
    by (simp add: complete_package_env_def)
  have m: "missing_required_files (complete_package_env x) = []" for x
    using e [of x] missing_required_files_iff [of "complete_package_env x"] by blast
  have r: "output_package_main (complete_package_env (Inl (lit ''invalid start byte'')))
             = Inl (lit ''invalid start byte'')"
    by (rule package_raises_when_report_unreadable [OF e])
      (simp add: complete_package_env_def)
  have ok: "output_package_main
              (complete_package_env (Inr (lit ''Preserve, Normalize, Improve, Exclude'')))
            = Inr (0, [lit ''Validation passed with 0 warning(s)''])"
    by (simp add: output_package_main_def m complete_package_json Let_def)
      (simp add: complete_package_env_def sublist_code(3))
  show ?thesis
    by (intro conjI m complete_package_json r ok)
qed

end
